theory Spec2Isabelle
  imports Main "HOL-Library.Sublist" "HOL-Library.Char_ord" "HOL-Library.List_Lexorder"
    "HOL-Library.Product_Lexorder"
begin

section \<open>JavaScript values as the worker sees them\<close>

text \<open>
  The worker (\<^verbatim>\<open>src/unnamed/part_001\<close>) reads request bodies as untyped JSON
  (\<^verbatim>\<open>readBodyAny\<close> returns \<^verbatim>\<open>any | null\<close>). A body is a \<open>json\<close> value; a body
  that could not be parsed is \<open>JNull\<close>, as the source returns \<^verbatim>\<open>null\<close> there.
  The type \<open>'n\<close> stands for the numbers of the runtime (IEEE doubles in the source):
  their arithmetic is not modelled, and everything the handlers ask of a number
  (its truthiness, its \<^verbatim>\<open>String(..)\<close>, the coercion \<^verbatim>\<open>Number(..)\<close>) is a field of
  the record \<open>runtime\<close> below. An object is the list of its own properties.
\<close>

datatype 'n json =
    JNull
  | JBool bool
  | JNum 'n
  | JStr string
  | JArr "'n json list"
  | JObj "(string \<times> 'n json) list"

text \<open>The request \<^verbatim>\<open>dispatchMindarJob\<close> sends to the workflow-dispatch endpoint.\<close>

record dispatch_request =
  d_url :: string
  d_bearer :: string
  d_ref :: string
  d_pairId :: string
  d_imagePublicUrl :: string
  d_apiBase :: string

text \<open>
  The builtins of the platform that the source calls and does not define:
  \<^verbatim>\<open>Number\<close>, \<^verbatim>\<open>JSON.stringify\<close>, \<^verbatim>\<open>JSON.parse\<close> (\<open>None\<close> where it throws), the
  number literals \<^verbatim>\<open>0.8\<close> and \<^verbatim>\<open>0\<close>, \<^verbatim>\<open>crypto.subtle\<close> behind \<^verbatim>\<open>hmacSign\<close> and
  \<^verbatim>\<open>sha256Hex\<close>, \<^verbatim>\<open>decodeURIComponent\<close> (\<open>None\<close> where it throws \<^verbatim>\<open>URIError\<close>) and
  \<^verbatim>\<open>encodeURIComponent\<close>. The bearer token of the staging worker carries the base64url
  text of \<^verbatim>\<open>{email, iat, exp}\<close>: \<open>encode_payload\<close> is that encoding and \<open>decode_payload\<close>
  reads \<^verbatim>\<open>email\<close> and \<^verbatim>\<open>exp\<close> back (\<open>None\<close> where decoding or parsing throws). Last,
  \<open>github\<close> is what the call of the workflow endpoint comes to: \<open>Inr ok\<close> when the
  endpoint answers, \<open>ok\<close> being \<^verbatim>\<open>resp.ok\<close>, and \<open>Inl msg\<close> when \<^verbatim>\<open>await fetch(..)\<close>
  rejects (or \<^verbatim>\<open>await resp.text()\<close> does, on an answer that is not ok): nothing in
  \<^verbatim>\<open>dispatchMindarJob\<close> or its callers catches that, so the \<^verbatim>\<open>catch\<close> of the worker
  (lines 749-752) answers 500 with \<open>msg\<close>, the message of the error (or
  \<^verbatim>\<open>Internal Server Error\<close> when what was thrown is not an \<^verbatim>\<open>Error\<close>).
  Calls of the database and the bucket that reject are outside the model.
\<close>

record 'n runtime =
  num_truthy :: "'n \<Rightarrow> bool"
  num_String :: "'n \<Rightarrow> string"
  Number :: "'n json \<Rightarrow> 'n"
  lit_0_8 :: "'n"
  lit_0 :: "'n"
  JSON_stringify :: "'n json \<Rightarrow> string"
  JSON_parse :: "string \<Rightarrow> 'n json option"
  hmacSign :: "string \<Rightarrow> string \<Rightarrow> string"
  sha256Hex :: "string \<Rightarrow> string"
  decodeURIComponent :: "string \<Rightarrow> string option"
  encodeURIComponent :: "string \<Rightarrow> string"
  encode_payload :: "string \<Rightarrow> int \<Rightarrow> int \<Rightarrow> string"
  decode_payload :: "string \<Rightarrow> (string \<times> int) option"
  github :: "dispatch_request \<Rightarrow> string + bool"

text \<open>\<^verbatim>\<open>body?.field\<close>: \<open>None\<close> is \<^verbatim>\<open>undefined\<close>. Only an object has the fields
  the handlers read.\<close>

fun field :: "'n json \<Rightarrow> string \<Rightarrow> 'n json option" where
  "field (JObj kvs) k = map_of kvs k"
| "field _ k = None"

text \<open>Truthiness of a value that may be \<^verbatim>\<open>undefined\<close>.\<close>

fun truthy :: "'n runtime \<Rightarrow> 'n json option \<Rightarrow> bool" where
  "truthy rt None = False"
| "truthy rt (Some JNull) = False"
| "truthy rt (Some (JBool b)) = b"
| "truthy rt (Some (JNum n)) = num_truthy rt n"
| "truthy rt (Some (JStr s)) = (s \<noteq> [])"
| "truthy rt (Some (JArr xs)) = True"
| "truthy rt (Some (JObj kvs)) = True"

definition intercalate :: "string \<Rightarrow> string list \<Rightarrow> string" where
  "intercalate sep xs = (case xs of [] \<Rightarrow> [] | y # ys \<Rightarrow> y @ concat (map (\<lambda>z. sep @ z) ys))"

text \<open>\<^verbatim>\<open>String(v)\<close>. An array joins its elements with commas, \<^verbatim>\<open>null\<close> elements
  printing as the empty string; an object prints as \<^verbatim>\<open>[object Object]\<close>.\<close>

fun String :: "'n runtime \<Rightarrow> 'n json \<Rightarrow> string" where
  "String rt JNull = ''null''"
| "String rt (JBool b) = (if b then ''true'' else ''false'')"
| "String rt (JNum n) = num_String rt n"
| "String rt (JStr s) = s"
| "String rt (JArr xs) =
     intercalate '','' (map (\<lambda>x. if x = JNull then [] else String rt x) xs)"
| "String rt (JObj kvs) = ''[object Object]''"

text \<open>
  Text is a list of the 256 characters of HOL, read as the code points U+0000 to U+00FF;
  a string with a character beyond U+00FF is not a value of this model.
  \<^verbatim>\<open>s.trim()\<close> strips the white space and the line terminators of ECMAScript from both
  ends, and \<^verbatim>\<open>\s\<close> in a pattern matches the same characters. Up to U+00FF these are
  the space, tab, line feed, vertical tab, form feed, carriage return and the no-break
  space U+00A0.
\<close>

definition is_space :: "char \<Rightarrow> bool" where
  "is_space c =
     (c \<in> set [CHR '' '', CHR 0x09, CHR 0x0A, CHR 0x0B, CHR 0x0C, CHR 0x0D, CHR 0xA0])"

definition trim :: "string \<Rightarrow> string" where
  "trim s = rev (dropWhile is_space (rev (dropWhile is_space s)))"

text \<open>\<^verbatim>\<open>String(v || "").trim()\<close>, the way almost every handler reads a text field.\<close>

definition text_or_empty :: "'n runtime \<Rightarrow> 'n json option \<Rightarrow> string" where
  "text_or_empty rt v = (if truthy rt v then trim (String rt (the v)) else trim [])"

text \<open>\<^verbatim>\<open>v ? String(v).trim() : null\<close>, the way the pair update reads a text field.\<close>

definition text_or_null :: "'n runtime \<Rightarrow> 'n json option \<Rightarrow> string option" where
  "text_or_null rt v = (if truthy rt v then Some (trim (String rt (the v))) else None)"

section \<open>Environment, tables and the state of the worker\<close>

text \<open>\<^verbatim>\<open>interface Env\<close>: every binding but the database and the bucket is optional.\<close>

record env =
  NODE_ENV :: "string option"
  SESSION_SECRET :: "string option"
  SIGNING_SECRET :: "string option"
  MINDAR_JOB_SECRET :: "string option"
  GITHUB_TOKEN :: "string option"
  GITHUB_REPO :: "string option"
  GITHUB_REF :: "string option"

text \<open>\<^verbatim>\<open>a || b\<close> on optional strings: an unset or empty \<open>a\<close> gives \<open>b\<close>.\<close>

definition str_or :: "string option \<Rightarrow> string \<Rightarrow> string" where
  "str_or a b = (case a of None \<Rightarrow> b | Some s \<Rightarrow> if s = [] then b else s)"

definition BUILD :: string where
  "BUILD = ''STAGING-BUILD-2026-02-04-B''"

text \<open>The rows of the tables \<^verbatim>\<open>experiences\<close>, \<^verbatim>\<open>assets\<close> and \<^verbatim>\<open>pairs\<close>, with the
  columns the statements of the worker name. A column that a statement may leave or set
  \<^verbatim>\<open>NULL\<close> is an option. Time stamps are the strings of \<^verbatim>\<open>nowIso()\<close>.\<close>

record experience_row =
  eid :: string
  e_name :: string
  qr_id :: string
  e_is_active :: int
  created_at :: string
  updated_at :: string

record 'n asset_row =
  aid :: string
  kind :: string
  r2_key :: string
  mime :: string
  size :: 'n

record 'n pair_row =
  pid :: string
  experience_id :: string
  image_asset_id :: string
  video_asset_id :: string
  mind_target_asset_id :: "string option"
  mind_target_status :: "string option"
  mind_target_error :: "string option"
  mind_target_requested_at :: "string option"
  mind_target_completed_at :: "string option"
  image_fingerprint :: "string option"
  threshold :: 'n
  priority :: 'n
  p_is_active :: int

text \<open>
  The state a request runs against: the three tables and the bucket. The field
  \<open>effects\<close> is a ghost record of what a handler did to the outside, in order: the
  \<^verbatim>\<open>pairs\<close> table after each statement that writes it, and each request sent to the
  workflow endpoint, answered or not. No statement of the source reads it.
\<close>

datatype 'n effect =
    Wrote_pairs "'n pair_row list"
  | Sent dispatch_request

record 'n world =
  experiences :: "experience_row list"
  assets :: "'n asset_row list"
  pairs :: "'n pair_row list"
  bucket :: "string \<rightharpoonup> (string \<times> string)"
  effects :: "'n effect list"

text \<open>A statement that writes \<^verbatim>\<open>pairs\<close>.\<close>

definition write_pairs :: "'n pair_row list \<Rightarrow> 'n world \<Rightarrow> 'n world" where
  "write_pairs ps w = w\<lparr>pairs := ps, effects := effects w @ [Wrote_pairs ps]\<rparr>"

text \<open>\<^verbatim>\<open>UPDATE pairs SET ... WHERE id = ?\<close>.\<close>

definition update_pair ::
  "string \<Rightarrow> ('n pair_row \<Rightarrow> 'n pair_row) \<Rightarrow> 'n world \<Rightarrow> 'n world" where
  "update_pair i f w = write_pairs (map (\<lambda>p. if pid p = i then f p else p) (pairs w)) w"

text \<open>\<^verbatim>\<open>SELECT ... FROM pairs WHERE id = ? LIMIT 1\<close>.\<close>

definition pair_by_id :: "'n world \<Rightarrow> string \<Rightarrow> 'n pair_row option" where
  "pair_by_id w i = find (\<lambda>p. pid p = i) (pairs w)"

section \<open>Requests and responses\<close>

text \<open>
  What the handlers read of a request: method, path and origin of the URL, the headers
  \<^verbatim>\<open>Authorization\<close>, \<^verbatim>\<open>x-job-secret\<close>, \<^verbatim>\<open>Content-Type\<close> and \<^verbatim>\<open>Cookie\<close>, the query parameters \<^verbatim>\<open>token\<close> and
  \<^verbatim>\<open>mime\<close>, the parsed body (\<^verbatim>\<open>readBodyAny\<close>) and the raw bytes. A response is its
  status and its JSON body, or a stored object; the CORS headers that \<^verbatim>\<open>json(..)\<close> adds are left out.
\<close>

record 'n request =
  http_method :: string
  path :: string
  origin :: string
  authorization :: "string option"
  x_job_secret :: "string option"
  content_type :: "string option"
  cookie :: "string option"
  q_token :: "string option"
  q_mime :: "string option"
  body :: "'n json"
  raw :: string

datatype 'n response =
    Response nat "'n json"
  | Object_response string string

text \<open>A stored object is sent back with its content type; its status is 200.\<close>

fun status :: "'n response \<Rightarrow> nat" where
  "status (Response st b) = st"
| "status (Object_response ct bytes) = 200"

fun payload :: "'n response \<Rightarrow> 'n json" where
  "payload (Response st b) = b"
| "payload (Object_response ct bytes) = JNull"

definition error_response :: "string \<Rightarrow> nat \<Rightarrow> 'n response" where
  "error_response msg st = Response st (JObj [(''error'', JStr msg), (''build'', JStr BUILD)])"

section \<open>The job secret\<close>

text \<open>\<^verbatim>\<open>isJobSecretValid\<close> (part_001, lines 199-203).\<close>

definition isJobSecretValid :: "env \<Rightarrow> 'n request \<Rightarrow> bool" where
  "isJobSecretValid e request =
     (let secret = str_or (MINDAR_JOB_SECRET e) [];
          header = str_or (x_job_secret request) []
      in length secret > 0 \<and> header = secret)"

section \<open>The completion callback\<close>

text \<open>\<^verbatim>\<open>POST /jobs/mindar/complete\<close> (part_001, lines 471-493); \<open>t\<close> is \<^verbatim>\<open>nowIso()\<close>.\<close>

definition jobs_mindar_complete ::
  "'n runtime \<Rightarrow> env \<Rightarrow> string \<Rightarrow> 'n request \<Rightarrow> 'n world \<Rightarrow> 'n response \<times> 'n world" where
  "jobs_mindar_complete rt e t request w =
     (if \<not> isJobSecretValid e request then (error_response ''Unauthorized'' 401, w)
      else
        let b = body request;
            pairId = text_or_empty rt (field b ''pairId'');
            mindAssetId = text_or_empty rt (field b ''mindAssetId'');
            errorMessage = (if truthy rt (field b ''error'') then String rt (the (field b ''error'')) else [])
        in if pairId = [] then (error_response ''Missing pairId'' 400, w)
           else if errorMessage \<noteq> [] \<or> mindAssetId = [] then
             (let msg = (if errorMessage \<noteq> [] then errorMessage else ''MindAR generation failed'')
              in (Response 200 (JObj [(''ok'', JBool False), (''error'', JStr msg), (''build'', JStr BUILD)]),
                  update_pair pairId (\<lambda>p. p\<lparr>mind_target_status := Some ''failed'',
                                             mind_target_error := Some msg,
                                             mind_target_completed_at := Some t\<rparr>) w))
           else
             (Response 200 (JObj [(''ok'', JBool True), (''build'', JStr BUILD)]),
              update_pair pairId (\<lambda>p. p\<lparr>mind_target_asset_id := Some mindAssetId,
                                         mind_target_status := Some ''ready'',
                                         mind_target_error := None,
                                         mind_target_completed_at := Some t\<rparr>) w))"

section \<open>Signed tokens\<close>

text \<open>\<^verbatim>\<open>env.SIGNING_SECRET || env.SESSION_SECRET || "staging-signing-secret"\<close>.\<close>

definition signing_secret :: "env \<Rightarrow> string" where
  "signing_secret e = str_or (SIGNING_SECRET e) (str_or (SESSION_SECRET e) ''staging-signing-secret'')"

text \<open>\<^verbatim>\<open>buildUploadToken\<close> and \<^verbatim>\<open>verifyUploadToken\<close> (part_001, lines 159-168); a token
  that is \<^verbatim>\<open>null\<close> or empty is refused before any comparison.\<close>

definition buildUploadToken :: "'n runtime \<Rightarrow> env \<Rightarrow> string \<Rightarrow> string" where
  "buildUploadToken rt e r2Key = hmacSign rt (signing_secret e) (''upload:'' @ r2Key)"

definition verifyUploadToken :: "'n runtime \<Rightarrow> env \<Rightarrow> string \<Rightarrow> string option \<Rightarrow> bool" where
  "verifyUploadToken rt e r2Key token =
     (case token of None \<Rightarrow> False
      | Some tk \<Rightarrow> if tk = [] then False else tk = buildUploadToken rt e r2Key)"

text \<open>\<^verbatim>\<open>buildAssetToken\<close> and \<^verbatim>\<open>verifyAssetToken\<close> (lines 170-179).\<close>

definition buildAssetToken :: "'n runtime \<Rightarrow> env \<Rightarrow> string \<Rightarrow> string" where
  "buildAssetToken rt e assetId = hmacSign rt (signing_secret e) (''asset:'' @ assetId)"

definition verifyAssetToken :: "'n runtime \<Rightarrow> env \<Rightarrow> string \<Rightarrow> string option \<Rightarrow> bool" where
  "verifyAssetToken rt e assetId token =
     (case token of None \<Rightarrow> False
      | Some tk \<Rightarrow> if tk = [] then False else tk = buildAssetToken rt e assetId)"

text \<open>\<^verbatim>\<open>s.split(d)\<close> on a one-character separator.\<close>

fun split_on :: "char \<Rightarrow> string \<Rightarrow> string list" where
  "split_on d [] = [[]]"
| "split_on d (c # cs) =
     (if c = d then [] # split_on d cs
      else (case split_on d cs of [] \<Rightarrow> [[c]] | x # xs \<Rightarrow> (c # x) # xs))"

text \<open>\<^verbatim>\<open>issueToken\<close> (lines 107-115); \<open>now\<close> is \<^verbatim>\<open>Math.floor(Date.now() / 1000)\<close>.\<close>

definition issueToken :: "'n runtime \<Rightarrow> env \<Rightarrow> int \<Rightarrow> string \<Rightarrow> string" where
  "issueToken rt e now email =
     (let secret = signing_secret e;
          ex = now + 60 * 60 * 24 * 7;
          pl = encode_payload rt email now ex;
          sig = hmacSign rt secret pl
      in pl @ ''.'' @ sig)"

text \<open>\<^verbatim>\<open>verifyToken\<close> (lines 117-134): the user is its email.\<close>

definition verifyToken :: "'n runtime \<Rightarrow> env \<Rightarrow> int \<Rightarrow> string \<Rightarrow> string option" where
  "verifyToken rt e now token =
     (let secret = signing_secret e in
      case split_on (CHR ''.'') token of
        [pl, sig] \<Rightarrow>
          if sig \<noteq> hmacSign rt secret pl then None
          else (case decode_payload rt pl of
                  None \<Rightarrow> None
                | Some (email, ex) \<Rightarrow>
                    if email = [] \<or> ex = 0 \<or> ex < now then None else Some email)
      | _ \<Rightarrow> None)"

text \<open>
  \<^verbatim>\<open>getBearerToken\<close> (lines 101-105): the header must match
  \<^verbatim>\<open>/^Bearer\s+(.+)$/i\<close>, that is, the word in any case, white space, and one more
  character at least, none of them a line terminator; the token is the trimmed rest.
  \<open>to_lower\<close> is \<^verbatim>\<open>toLowerCase\<close> on one character: up to U+00FF the letters A to Z and
  the letters U+00C0 to U+00DE, the sign U+00D7 apart, have a lower case of their own.
  No character above U+007F has a lower case below it, so that lowering the word of the
  header agrees with the case-insensitive match of the pattern.
\<close>

definition upper_case :: string where
  "upper_case = ''ABCDEFGHIJKLMNOPQRSTUVWXYZ'' @
     [CHR 0xC0, CHR 0xC1, CHR 0xC2, CHR 0xC3, CHR 0xC4, CHR 0xC5, CHR 0xC6, CHR 0xC7,
      CHR 0xC8, CHR 0xC9, CHR 0xCA, CHR 0xCB, CHR 0xCC, CHR 0xCD, CHR 0xCE, CHR 0xCF,
      CHR 0xD0, CHR 0xD1, CHR 0xD2, CHR 0xD3, CHR 0xD4, CHR 0xD5, CHR 0xD6, CHR 0xD8,
      CHR 0xD9, CHR 0xDA, CHR 0xDB, CHR 0xDC, CHR 0xDD, CHR 0xDE]"

definition lower_case :: string where
  "lower_case = ''abcdefghijklmnopqrstuvwxyz'' @
     [CHR 0xE0, CHR 0xE1, CHR 0xE2, CHR 0xE3, CHR 0xE4, CHR 0xE5, CHR 0xE6, CHR 0xE7,
      CHR 0xE8, CHR 0xE9, CHR 0xEA, CHR 0xEB, CHR 0xEC, CHR 0xED, CHR 0xEE, CHR 0xEF,
      CHR 0xF0, CHR 0xF1, CHR 0xF2, CHR 0xF3, CHR 0xF4, CHR 0xF5, CHR 0xF6, CHR 0xF8,
      CHR 0xF9, CHR 0xFA, CHR 0xFB, CHR 0xFC, CHR 0xFD, CHR 0xFE]"

definition to_lower :: "char \<Rightarrow> char" where
  "to_lower c = (case map_of (zip upper_case lower_case) c of None \<Rightarrow> c | Some l \<Rightarrow> l)"

definition line_terminator :: "char \<Rightarrow> bool" where
  "line_terminator c = (c = CHR 0x0A \<or> c = CHR 0x0D)"

definition bearer_rest_matches :: "string \<Rightarrow> bool" where
  "bearer_rest_matches rest =
     (let n = length (takeWhile is_space rest)
      in 1 \<le> n \<and>
         (if n < length rest then list_all (\<lambda>c. \<not> line_terminator c) (drop n rest)
          else 2 \<le> n \<and> \<not> line_terminator (last rest)))"

definition getBearerToken :: "'n request \<Rightarrow> string option" where
  "getBearerToken request =
     (let auth = str_or (authorization request) []
      in if map to_lower (take 6 auth) = ''bearer'' \<and> bearer_rest_matches (drop 6 auth)
         then Some (trim (drop 6 auth)) else None)"

text \<open>\<^verbatim>\<open>requireUser\<close> (lines 136-140).\<close>

definition requireUser :: "'n runtime \<Rightarrow> env \<Rightarrow> int \<Rightarrow> 'n request \<Rightarrow> string option" where
  "requireUser rt e now request =
     (case getBearerToken request of
        None \<Rightarrow> None
      | Some token \<Rightarrow> if token = [] then None else verifyToken rt e now token)"

section \<open>Uploads\<close>

text \<open>\<^verbatim>\<open>String(v || d).trim()\<close>.\<close>

definition text_or :: "'n runtime \<Rightarrow> 'n json option \<Rightarrow> string \<Rightarrow> string" where
  "text_or rt v d = trim (if truthy rt v then String rt (the v) else d)"

text \<open>\<^verbatim>\<open>sanitizeFilename\<close> (lines 153-157): every run of characters outside
  \<^verbatim>\<open>[a-zA-Z0-9._-]\<close> becomes one underscore, and underscores at both ends go.\<close>

definition filename_char :: "char \<Rightarrow> bool" where
  "filename_char c =
     ((CHR ''a'' \<le> c \<and> c \<le> CHR ''z'') \<or> (CHR ''A'' \<le> c \<and> c \<le> CHR ''Z'') \<or>
      (CHR ''0'' \<le> c \<and> c \<le> CHR ''9'') \<or> c = CHR ''.'' \<or> c = CHR ''_'' \<or> c = CHR ''-'')"

fun squash_runs :: "bool \<Rightarrow> string \<Rightarrow> string" where
  "squash_runs in_run [] = []"
| "squash_runs in_run (c # cs) =
     (if filename_char c then c # squash_runs False cs
      else if in_run then squash_runs True cs
      else CHR ''_'' # squash_runs True cs)"

definition sanitizeFilename :: "string \<Rightarrow> string" where
  "sanitizeFilename name =
     (let trimmed = trim name in
      if trimmed = [] then ''file''
      else let r = rev (dropWhile (\<lambda>c. c = CHR ''_'')
                     (rev (dropWhile (\<lambda>c. c = CHR ''_'') (squash_runs False trimmed))))
           in if r = [] then ''file'' else r)"

text \<open>\<^verbatim>\<open>POST /uploads/sign\<close> (lines 366-377); \<open>u\<close> is \<^verbatim>\<open>uuid()\<close>.\<close>

definition uploads_sign ::
  "'n runtime \<Rightarrow> env \<Rightarrow> string \<Rightarrow> 'n request \<Rightarrow> 'n world \<Rightarrow> 'n response \<times> 'n world" where
  "uploads_sign rt e u request w =
     (let b = body request;
          kind = text_or_empty rt (field b ''kind'');
          mime = text_or rt (field b ''mime'') ''application/octet-stream'';
          filename = text_or rt (field b ''filename'') ''file'';
          r2Key = kind @ ''/'' @ u @ ''-'' @ sanitizeFilename filename;
          token = buildUploadToken rt e r2Key;
          uploadUrl = origin request @ ''/uploads/put/'' @ encodeURIComponent rt r2Key @ ''?token='' @
                      encodeURIComponent rt token @ ''&mime='' @ encodeURIComponent rt mime
      in (Response 200 (JObj [(''uploadUrl'', JStr uploadUrl), (''r2Key'', JStr r2Key),
                              (''build'', JStr BUILD)]), w))"

text \<open>
  \<^verbatim>\<open>PUT /uploads/put/:key\<close> (lines 379-391). The key is the decoded rest of the path;
  where decoding throws, the handler of the whole worker answers 500 with the message of
  the exception. The bucket maps a key to the bytes and their content type.
\<close>

definition uploads_put ::
  "'n runtime \<Rightarrow> env \<Rightarrow> 'n request \<Rightarrow> 'n world \<Rightarrow> 'n response \<times> 'n world" where
  "uploads_put rt e request w =
     (case decodeURIComponent rt (drop (length ''/uploads/put/'') (path request)) of
        None \<Rightarrow> (error_response ''URI malformed'' 500, w)
      | Some r2Key \<Rightarrow>
          if r2Key = [] then (error_response ''Not Found'' 404, w)
          else if \<not> verifyUploadToken rt e r2Key (q_token request)
          then (error_response ''Unauthorized'' 401, w)
          else
            let mime = str_or (q_mime request) ''application/octet-stream''
            in (Response 200 (JObj [(''ok'', JBool True), (''r2Key'', JStr r2Key),
                                    (''build'', JStr BUILD)]),
                w\<lparr>bucket := (bucket w)(r2Key \<mapsto> (raw request, mime))\<rparr>))"

text \<open>\<^verbatim>\<open>POST /uploads/complete\<close> (lines 393-420); \<open>u\<close> is \<^verbatim>\<open>uuid()\<close>.\<close>

definition uploads_complete ::
  "'n runtime \<Rightarrow> env \<Rightarrow> string \<Rightarrow> 'n request \<Rightarrow> 'n world \<Rightarrow> 'n response \<times> 'n world" where
  "uploads_complete rt e u request w =
     (let b = body request;
          kind = text_or_empty rt (field b ''kind'');
          r2Key = text_or_empty rt (field b ''r2Key'');
          mime = text_or rt (field b ''mime'') ''application/octet-stream'';
          size = Number rt (if truthy rt (field b ''size'') then the (field b ''size'') else JNum (lit_0 rt))
      in if kind = [] \<or> r2Key = [] then (error_response ''Invalid upload'' 400, w)
         else
           let assetToken = buildAssetToken rt e u
           in (Response 200 (JObj [(''id'', JStr u), (''kind'', JStr kind), (''r2_key'', JStr r2Key),
                  (''mime'', JStr mime), (''size'', JNum size),
                  (''url'', JStr (origin request @ ''/assets/'' @ u @ ''?token='' @
                                  encodeURIComponent rt assetToken)),
                  (''build'', JStr BUILD)]),
               w\<lparr>assets := assets w @ [\<lparr>aid = u, kind = kind, r2_key = r2Key, mime = mime,
                                          size = size\<rparr>]\<rparr>))"

text \<open>The two routes that send a stored object: \<^verbatim>\<open>GET /public/assets/:id\<close> (lines 259-274)
  and \<^verbatim>\<open>GET /assets/:id\<close> (lines 423-443), the second for a user or a valid asset token.\<close>

definition send_asset :: "string \<Rightarrow> 'n world \<Rightarrow> 'n response" where
  "send_asset assetId w =
     (case find (\<lambda>a. aid a = assetId) (assets w) of
        None \<Rightarrow> error_response ''Not Found'' 404
      | Some asset \<Rightarrow>
          (case bucket w (r2_key asset) of
             None \<Rightarrow> error_response ''Not Found'' 404
           | Some (bytes, ct) \<Rightarrow>
               Object_response (if mime asset = [] then ''application/octet-stream'' else mime asset) bytes))"

definition public_assets ::
  "'n runtime \<Rightarrow> 'n request \<Rightarrow> 'n world \<Rightarrow> 'n response \<times> 'n world" where
  "public_assets rt request w =
     (case decodeURIComponent rt (drop (length ''/public/assets/'') (path request)) of
        None \<Rightarrow> (error_response ''URI malformed'' 500, w)
      | Some assetId \<Rightarrow>
          if assetId = [] then (error_response ''Not Found'' 404, w) else (send_asset assetId w, w))"

definition assets_get ::
  "'n runtime \<Rightarrow> env \<Rightarrow> string option \<Rightarrow> 'n request \<Rightarrow> 'n world \<Rightarrow> 'n response \<times> 'n world" where
  "assets_get rt e user request w =
     (case decodeURIComponent rt (drop (length ''/assets/'') (path request)) of
        None \<Rightarrow> (error_response ''URI malformed'' 500, w)
      | Some assetId \<Rightarrow>
          if assetId = [] then (error_response ''Not Found'' 404, w)
          else if \<not> verifyAssetToken rt e assetId (q_token request) \<and> user = None
          then (error_response ''Unauthorized'' 401, w)
          else (send_asset assetId w, w))"

section \<open>Dispatching the generation job\<close>

text \<open>
  \<^verbatim>\<open>dispatchMindarJob\<close> (lines 205-235). Without a token or a repository nothing is
  sent and the result is \<^verbatim>\<open>false\<close>; otherwise one request goes to the workflow
  endpoint and the result is \<^verbatim>\<open>resp.ok\<close>, or the function throws (\<open>Inl\<close>) when the
  call rejects.
\<close>

definition workflow_request :: "env \<Rightarrow> string \<Rightarrow> string \<Rightarrow> string \<Rightarrow> dispatch_request" where
  "workflow_request e pairId imagePublicUrl apiBase =
     \<lparr>d_url = ''https://api.github.com/repos/'' @ str_or (GITHUB_REPO e) [] @
              ''/actions/workflows/mindar-generate.yml/dispatches'',
      d_bearer = str_or (GITHUB_TOKEN e) [],
      d_ref = str_or (GITHUB_REF e) ''main'',
      d_pairId = pairId, d_imagePublicUrl = imagePublicUrl, d_apiBase = apiBase\<rparr>"

definition configured :: "env \<Rightarrow> bool" where
  "configured e = (str_or (GITHUB_TOKEN e) [] \<noteq> [] \<and> str_or (GITHUB_REPO e) [] \<noteq> [])"

definition dispatchMindarJob ::
  "'n runtime \<Rightarrow> env \<Rightarrow> string \<Rightarrow> string \<Rightarrow> string \<Rightarrow> 'n world \<Rightarrow> (string + bool) \<times> 'n world" where
  "dispatchMindarJob rt e pairId imagePublicUrl apiBase w =
     (if \<not> configured e then (Inr False, w)
      else
        let rq = workflow_request e pairId imagePublicUrl apiBase
        in (github rt rq, w\<lparr>effects := effects w @ [Sent rq]\<rparr>))"

text \<open>The statement that follows a dispatch that returned \<^verbatim>\<open>false\<close>, at each of its
  three sites: \<^verbatim>\<open>UPDATE pairs SET mind_target_status = 'failed', mind_target_error =
  'Dispatch failed' WHERE id = ?\<close>.\<close>

definition mark_dispatch_failed :: "string \<Rightarrow> 'n world \<Rightarrow> 'n world" where
  "mark_dispatch_failed pairId w =
     update_pair pairId (\<lambda>p. p\<lparr>mind_target_status := Some ''failed'',
                                mind_target_error := Some ''Dispatch failed''\<rparr>) w"

text \<open>\<^verbatim>\<open>POST /jobs/mindar/dispatch\<close> (lines 447-469); \<open>t\<close> is \<^verbatim>\<open>nowIso()\<close>. When the
  dispatch throws, the statements after it are not run and the worker answers 500.\<close>

definition jobs_mindar_dispatch ::
  "'n runtime \<Rightarrow> env \<Rightarrow> string \<Rightarrow> string option \<Rightarrow> 'n request \<Rightarrow> 'n world \<Rightarrow> 'n response \<times> 'n world" where
  "jobs_mindar_dispatch rt e t user request w =
     (if user = None then (error_response ''Unauthorized'' 401, w)
      else
        let b = body request;
            pairId = text_or_empty rt (field b ''pairId'');
            imageAssetId = text_or_empty rt (field b ''image_asset_id'')
        in if pairId = [] \<or> imageAssetId = []
           then (error_response ''Missing pairId or image_asset_id'' 400, w)
           else
             let imagePublicUrl = origin request @ ''/public/assets/'' @ imageAssetId;
                 w1 = update_pair pairId (\<lambda>p. p\<lparr>mind_target_status := Some ''pending'',
                                                  mind_target_error := None,
                                                  mind_target_requested_at := Some t\<rparr>) w;
                 (r, w2) = dispatchMindarJob rt e pairId imagePublicUrl (origin request) w1
             in (case r of
                   Inl msg \<Rightarrow> (error_response msg 500, w2)
                 | Inr ok \<Rightarrow>
                     (Response 200 (JObj [(''ok'', JBool ok), (''build'', JStr BUILD)]),
                      if \<not> ok then mark_dispatch_failed pairId w2 else w2)))"

section \<open>Experiences\<close>

text \<open>\<^verbatim>\<open>mapExperience\<close> (lines 190-197).\<close>

definition mapExperience :: "experience_row \<Rightarrow> (string \<times> 'n json) list" where
  "mapExperience row = [(''id'', JStr (eid row)), (''name'', JStr (e_name row)),
                        (''qr_id'', JStr (qr_id row)), (''is_active'', JBool (e_is_active row \<noteq> 0))]"

text \<open>A path that is \<open>pre\<close>, one non-empty segment without a slash, and \<open>suf\<close>: the
  regular expressions \<^verbatim>\<open>^/experiences/([^/]+)$\<close> and the like.\<close>

definition match_one :: "string \<Rightarrow> string \<Rightarrow> string \<Rightarrow> string option" where
  "match_one pre suf p =
     (if prefix pre p \<and> suffix suf (drop (length pre) p) then
        let seg = take (length p - length pre - length suf) (drop (length pre) p)
        in if seg \<noteq> [] \<and> CHR ''/'' \<notin> set seg then Some seg else None
      else None)"

text \<open>\<^verbatim>\<open>GET /experiences\<close> (lines 496-501), newest first.\<close>

definition experiences_list :: "'n world \<Rightarrow> 'n response \<times> 'n world" where
  "experiences_list w =
     (Response 200 (JObj [(''experiences'',
          JArr (map (\<lambda>x. JObj (mapExperience x)) (rev (sort_key created_at (experiences w))))),
        (''build'', JStr BUILD)]), w)"

text \<open>\<^verbatim>\<open>genQrId\<close> (lines 149-151), from a fresh \<^verbatim>\<open>uuid()\<close>.\<close>

definition genQrId :: "string \<Rightarrow> string" where
  "genQrId u = take 12 (filter (\<lambda>c. c \<noteq> CHR ''-'') u)"

text \<open>\<^verbatim>\<open>POST /experiences\<close> (lines 503-517); \<open>u\<close> and \<open>u2\<close> are the two calls of
  \<^verbatim>\<open>uuid()\<close>, \<open>t\<close> is \<^verbatim>\<open>nowIso()\<close>.\<close>

definition experiences_create ::
  "'n runtime \<Rightarrow> string \<Rightarrow> string \<Rightarrow> string \<Rightarrow> 'n request \<Rightarrow> 'n world \<Rightarrow> 'n response \<times> 'n world" where
  "experiences_create rt u u2 t request w =
     (let name = text_or_empty rt (field (body request) ''name'')
      in if name = [] then (error_response ''Name is required'' 400, w)
         else
           let qr = genQrId u2
           in (Response 200 (JObj [(''id'', JStr u), (''name'', JStr name), (''qr_id'', JStr qr),
                                   (''is_active'', JBool True), (''build'', JStr BUILD)]),
               w\<lparr>experiences := experiences w @
                    [\<lparr>eid = u, e_name = name, qr_id = qr, e_is_active = 1,
                      created_at = t, updated_at = t\<rparr>]\<rparr>))"

text \<open>\<^verbatim>\<open>GET /experiences/:id\<close> (lines 520-527).\<close>

definition experience_get :: "'n runtime \<Rightarrow> string \<Rightarrow> 'n world \<Rightarrow> 'n response \<times> 'n world" where
  "experience_get rt seg w =
     (case decodeURIComponent rt seg of
        None \<Rightarrow> (error_response ''URI malformed'' 500, w)
      | Some i \<Rightarrow>
          (case find (\<lambda>x. eid x = i) (experiences w) of
             None \<Rightarrow> (error_response ''Not Found'' 404, w)
           | Some ex \<Rightarrow> (Response 200 (JObj (mapExperience ex)), w)))"

text \<open>\<^verbatim>\<open>PUT /experiences/:id\<close> (lines 529-551): a field that is \<^verbatim>\<open>undefined\<close> keeps the
  stored value.\<close>

definition experience_put ::
  "'n runtime \<Rightarrow> string \<Rightarrow> string \<Rightarrow> 'n request \<Rightarrow> 'n world \<Rightarrow> 'n response \<times> 'n world" where
  "experience_put rt t seg request w =
     (case decodeURIComponent rt seg of
        None \<Rightarrow> (error_response ''URI malformed'' 500, w)
      | Some i \<Rightarrow>
          let b = body request;
              name = map_option (\<lambda>v. text_or_empty rt (Some v)) (field b ''name'');
              isActive = map_option (\<lambda>v. truthy rt (Some v)) (field b ''is_active'');
              qrId = map_option (\<lambda>v. text_or_empty rt (Some v)) (field b ''qr_id'')
          in (case find (\<lambda>x. eid x = i) (experiences w) of
                None \<Rightarrow> (error_response ''Not Found'' 404, w)
              | Some existing \<Rightarrow>
                  let nextName = (case name of None \<Rightarrow> e_name existing | Some n \<Rightarrow> n);
                      nextQr = (case qrId of None \<Rightarrow> qr_id existing | Some q \<Rightarrow> q);
                      nextActive = (case isActive of None \<Rightarrow> e_is_active existing
                                    | Some a \<Rightarrow> if a then 1 else 0)
                  in (Response 200 (JObj [(''id'', JStr i), (''name'', JStr nextName),
                         (''qr_id'', JStr nextQr), (''is_active'', JBool (nextActive \<noteq> 0)),
                         (''build'', JStr BUILD)]),
                      w\<lparr>experiences := map (\<lambda>x. if eid x = i
                            then x\<lparr>e_name := nextName, qr_id := nextQr, e_is_active := nextActive,
                                   updated_at := t\<rparr> else x) (experiences w)\<rparr>)))"

text \<open>\<^verbatim>\<open>DELETE /experiences/:id\<close> (lines 553-559): the pairs of the experience first,
  then its row. A statement that ran reports success, so the answer is 200.\<close>

definition experience_delete :: "'n runtime \<Rightarrow> string \<Rightarrow> 'n world \<Rightarrow> 'n response \<times> 'n world" where
  "experience_delete rt seg w =
     (case decodeURIComponent rt seg of
        None \<Rightarrow> (error_response ''URI malformed'' 500, w)
      | Some i \<Rightarrow>
          let w1 = write_pairs (filter (\<lambda>p. experience_id p \<noteq> i) (pairs w)) w
          in (Response 200 (JObj [(''ok'', JBool True), (''build'', JStr BUILD)]),
              w1\<lparr>experiences := filter (\<lambda>x. eid x \<noteq> i) (experiences w1)\<rparr>))"

section \<open>Pairs\<close>

definition opt_str :: "string option \<Rightarrow> 'n json" where
  "opt_str v = (case v of None \<Rightarrow> JNull | Some x \<Rightarrow> JStr x)"

text \<open>\<^verbatim>\<open>a ?? b\<close>: \<open>b\<close> where \<open>a\<close> is \<^verbatim>\<open>undefined\<close> or \<^verbatim>\<open>null\<close>.\<close>

definition nullish :: "'n json option \<Rightarrow> bool" where
  "nullish v = (v = None \<or> v = Some JNull)"

definition coalesce :: "'n json option \<Rightarrow> 'n json \<Rightarrow> 'n json" where
  "coalesce a b = (if nullish a then b else the a)"

text \<open>\<^verbatim>\<open>ORDER BY priority DESC, id DESC\<close>.\<close>

definition order_pairs :: "('n::linorder) pair_row list \<Rightarrow> 'n pair_row list" where
  "order_pairs ps = rev (sort_key (\<lambda>p. (priority p, pid p)) ps)"

text \<open>The columns of an asset joined to a pair (\<^verbatim>\<open>LEFT JOIN assets\<close>), \<^verbatim>\<open>NULL\<close> where no
  asset has the id.\<close>

definition joined :: "'n world \<Rightarrow> string option \<Rightarrow> 'n asset_row option" where
  "joined w i = (case i of None \<Rightarrow> None | Some x \<Rightarrow> find (\<lambda>a. aid a = x) (assets w))"

definition asset_url :: "'n runtime \<Rightarrow> env \<Rightarrow> string \<Rightarrow> string option \<Rightarrow> 'n json" where
  "asset_url rt e org i =
     (case i of None \<Rightarrow> JNull
      | Some x \<Rightarrow> if x = [] then JNull
                  else JStr (org @ ''/assets/'' @ x @ ''?token='' @
                             encodeURIComponent rt (buildAssetToken rt e x)))"

text \<open>One row of \<^verbatim>\<open>GET /experiences/:id/pairs\<close> (lines 595-637).\<close>

definition pair_json :: "'n runtime \<Rightarrow> env \<Rightarrow> string \<Rightarrow> 'n world \<Rightarrow> 'n pair_row \<Rightarrow> 'n json" where
  "pair_json rt e org w row =
     (let ai = joined w (Some (image_asset_id row));
          am = joined w (mind_target_asset_id row);
          av = joined w (Some (video_asset_id row));
          fingerprint = (case image_fingerprint row of
                           None \<Rightarrow> JNull
                         | Some fp \<Rightarrow> if fp = [] then JStr fp
                                      else (case JSON_parse rt fp of None \<Rightarrow> JStr fp | Some v \<Rightarrow> v))
      in JObj [(''id'', JStr (pid row)),
               (''experience_id'', JStr (experience_id row)),
               (''image_asset_id'', JStr (image_asset_id row)),
               (''video_asset_id'', JStr (video_asset_id row)),
               (''mind_target_asset_id'', opt_str (mind_target_asset_id row)),
               (''mind_target_status'', opt_str (mind_target_status row)),
               (''mind_target_error'', opt_str (mind_target_error row)),
               (''mind_target_requested_at'', opt_str (mind_target_requested_at row)),
               (''mind_target_completed_at'', opt_str (mind_target_completed_at row)),
               (''image_fingerprint'', fingerprint),
               (''threshold'', JNum (threshold row)),
               (''priority'', JNum (priority row)),
               (''is_active'', JBool (p_is_active row \<noteq> 0)),
               (''image_r2_key'', opt_str (map_option r2_key ai)),
               (''mind_r2_key'', opt_str (map_option r2_key am)),
               (''video_r2_key'', opt_str (map_option r2_key av)),
               (''image_mime'', opt_str (map_option mime ai)),
               (''mind_mime'', opt_str (map_option mime am)),
               (''video_mime'', opt_str (map_option mime av)),
               (''image_size'', (case ai of None \<Rightarrow> JNull | Some a \<Rightarrow> JNum (size a))),
               (''mind_size'', (case am of None \<Rightarrow> JNull | Some a \<Rightarrow> JNum (size a))),
               (''video_size'', (case av of None \<Rightarrow> JNull | Some a \<Rightarrow> JNum (size a))),
               (''image_url'', asset_url rt e org (Some (image_asset_id row))),
               (''mind_target_url'', asset_url rt e org (mind_target_asset_id row)),
               (''video_url'', asset_url rt e org (Some (video_asset_id row)))])"

text \<open>\<^verbatim>\<open>GET /experiences/:id/pairs\<close> (lines 562-640).\<close>

definition experience_pairs_list ::
  "('n::linorder) runtime \<Rightarrow> env \<Rightarrow> string \<Rightarrow> 'n request \<Rightarrow> 'n world \<Rightarrow> 'n response \<times> 'n world" where
  "experience_pairs_list rt e seg request w =
     (case decodeURIComponent rt seg of
        None \<Rightarrow> (error_response ''URI malformed'' 500, w)
      | Some i \<Rightarrow>
          (Response 200 (JObj [(''pairs'',
               JArr (map (pair_json rt e (origin request) w)
                         (order_pairs (filter (\<lambda>p. experience_id p = i) (pairs w))))),
             (''build'', JStr BUILD)]), w))"

text \<open>\<^verbatim>\<open>POST /experiences/:id/pairs\<close> (lines 642-678); \<open>u\<close> is \<^verbatim>\<open>uuid()\<close>, \<open>t\<close> is
  \<^verbatim>\<open>nowIso()\<close>. The row is inserted \<open>pending\<close>, then the job is dispatched.\<close>

definition experience_pairs_create ::
  "'n runtime \<Rightarrow> env \<Rightarrow> string \<Rightarrow> string \<Rightarrow> string \<Rightarrow> 'n request \<Rightarrow> 'n world \<Rightarrow> 'n response \<times> 'n world" where
  "experience_pairs_create rt e u t seg request w =
     (case decodeURIComponent rt seg of
        None \<Rightarrow> (error_response ''URI malformed'' 500, w)
      | Some expId \<Rightarrow>
          let b = body request;
              imageAssetId = text_or_empty rt (field b ''image_asset_id'');
              videoAssetId = text_or_empty rt (field b ''video_asset_id'');
              fingerprint = coalesce (field b ''image_fingerprint'') JNull;
              thr = Number rt (coalesce (field b ''match_threshold'')
                                 (coalesce (field b ''threshold'') (JNum (lit_0_8 rt))));
              prio = Number rt (coalesce (field b ''priority'') (JNum (lit_0 rt)))
          in if imageAssetId = [] \<or> videoAssetId = [] then (error_response ''Missing assets'' 400, w)
             else
               let row = \<lparr>pid = u, experience_id = expId, image_asset_id = imageAssetId,
                          video_asset_id = videoAssetId, mind_target_asset_id = None,
                          mind_target_status = Some ''pending'', mind_target_error = None,
                          mind_target_requested_at = Some t, mind_target_completed_at = None,
                          image_fingerprint = (if truthy rt (Some fingerprint)
                                               then Some (JSON_stringify rt fingerprint) else None),
                          threshold = thr, priority = prio, p_is_active = 1\<rparr>;
                   w1 = write_pairs (pairs w @ [row]) w;
                   imagePublicUrl = origin request @ ''/public/assets/'' @ imageAssetId;
                   (r, w2) = dispatchMindarJob rt e u imagePublicUrl (origin request) w1
               in (case r of
                     Inl msg \<Rightarrow> (error_response msg 500, w2)
                   | Inr ok \<Rightarrow>
                       (Response 200 (JObj [(''id'', JStr u), (''build'', JStr BUILD)]),
                        if \<not> ok then mark_dispatch_failed u w2 else w2)))"

text \<open>
  \<^verbatim>\<open>PUT /pairs/:id\<close> (lines 680-740); \<open>t\<close> is \<^verbatim>\<open>nowIso()\<close>. A text field counts as
  given when its value is truthy, a number or the flag when it is not \<^verbatim>\<open>undefined\<close>,
  the fingerprint when it is neither \<^verbatim>\<open>undefined\<close> nor \<^verbatim>\<open>null\<close>. First
  \<^verbatim>\<open>imageChanged\<close> (line 707), then the columns that the \<^verbatim>\<open>UPDATE\<close> statement sets
  (lines 684-727) from the body \<open>b\<close> and the row \<open>existing\<close>, then the handler.
\<close>

definition imageChanged :: "'n runtime \<Rightarrow> 'n json \<Rightarrow> 'n pair_row \<Rightarrow> bool" where
  "imageChanged rt b existing =
     (case text_or_null rt (field b ''image_asset_id'') of
        None \<Rightarrow> False
      | Some x \<Rightarrow> x \<noteq> [] \<and> x \<noteq> image_asset_id existing)"

definition put_columns ::
  "'n runtime \<Rightarrow> string \<Rightarrow> 'n json \<Rightarrow> 'n pair_row \<Rightarrow> 'n pair_row \<Rightarrow> 'n pair_row" where
  "put_columns rt t b existing p =
     (let experienceId = text_or_null rt (field b ''experience_id'');
          imageAssetId = text_or_null rt (field b ''image_asset_id'');
          videoAssetId = text_or_null rt (field b ''video_asset_id'');
          fingerprint = (if nullish (field b ''image_fingerprint'') then None
                         else field b ''image_fingerprint'');
          thr = map_option (Number rt) (field b ''threshold'');
          prio = map_option (Number rt) (field b ''priority'');
          isActive = map_option (\<lambda>v. truthy rt (Some v)) (field b ''is_active'');
          nextExperienceId = (case experienceId of None \<Rightarrow> experience_id existing | Some x \<Rightarrow> x);
          nextImageAssetId = (case imageAssetId of None \<Rightarrow> image_asset_id existing | Some x \<Rightarrow> x);
          nextVideoAssetId = (case videoAssetId of None \<Rightarrow> video_asset_id existing | Some x \<Rightarrow> x);
          nextFingerprint = (case fingerprint of None \<Rightarrow> image_fingerprint existing
                             | Some f \<Rightarrow> Some (JSON_stringify rt f));
          nextThreshold = (case thr of None \<Rightarrow> threshold existing | Some x \<Rightarrow> x);
          nextPriority = (case prio of None \<Rightarrow> priority existing | Some x \<Rightarrow> x);
          nextActive = (case isActive of None \<Rightarrow> p_is_active existing
                        | Some a \<Rightarrow> if a then 1 else 0);
          changed = imageChanged rt b existing;
          nextMindStatus = (if changed then Some ''pending'' else mind_target_status existing);
          nextMindAssetId = (if changed then None else mind_target_asset_id existing);
          nextMindRequestedAt = (if changed then Some t else mind_target_requested_at existing)
      in p\<lparr>experience_id := nextExperienceId,
            image_asset_id := nextImageAssetId,
            video_asset_id := nextVideoAssetId,
            image_fingerprint := nextFingerprint,
            mind_target_asset_id := nextMindAssetId,
            mind_target_status := nextMindStatus,
            mind_target_error := None,
            mind_target_requested_at := nextMindRequestedAt,
            threshold := nextThreshold,
            priority := nextPriority,
            p_is_active := nextActive\<rparr>)"

definition pairs_put ::
  "'n runtime \<Rightarrow> env \<Rightarrow> string \<Rightarrow> string \<Rightarrow> 'n request \<Rightarrow> 'n world \<Rightarrow> 'n response \<times> 'n world" where
  "pairs_put rt e t seg request w =
     (case decodeURIComponent rt seg of
        None \<Rightarrow> (error_response ''URI malformed'' 500, w)
      | Some pairId \<Rightarrow>
          (case pair_by_id w pairId of
             None \<Rightarrow> (error_response ''Not Found'' 404, w)
           | Some existing \<Rightarrow>
               let b = body request;
                   w1 = update_pair pairId (put_columns rt t b existing) w;
                   answer = Response 200 (JObj [(''ok'', JBool True), (''build'', JStr BUILD)])
               in if imageChanged rt b existing then
                    let imagePublicUrl = origin request @ ''/public/assets/'' @
                          the (text_or_null rt (field b ''image_asset_id''));
                        (r, w2) = dispatchMindarJob rt e pairId imagePublicUrl (origin request) w1
                    in (case r of
                          Inl msg \<Rightarrow> (error_response msg 500, w2)
                        | Inr ok \<Rightarrow> (answer, if \<not> ok then mark_dispatch_failed pairId w2 else w2))
                  else (answer, w1)))"

text \<open>\<^verbatim>\<open>DELETE /pairs/:id\<close> (lines 742-746).\<close>

definition pairs_delete :: "'n runtime \<Rightarrow> string \<Rightarrow> 'n world \<Rightarrow> 'n response \<times> 'n world" where
  "pairs_delete rt seg w =
     (case decodeURIComponent rt seg of
        None \<Rightarrow> (error_response ''URI malformed'' 500, w)
      | Some pairId \<Rightarrow>
          (Response 200 (JObj [(''ok'', JBool True), (''build'', JStr BUILD)]),
           write_pairs (filter (\<lambda>p. pid p \<noteq> pairId) (pairs w)) w))"

section \<open>Public resolution\<close>

text \<open>
  \<^verbatim>\<open>GET /public/experience/:qrId\<close> (lines 277-322). The experience is the first row
  with the code (the statement has \<^verbatim>\<open>LIMIT 1\<close> and no order); the pair is the first of
  its pairs with \<^verbatim>\<open>is_active = 1\<close> by descending priority and id.
\<close>

definition select_pair :: "('n::linorder) world \<Rightarrow> string \<Rightarrow> 'n pair_row option" where
  "select_pair w i =
     (case order_pairs (filter (\<lambda>p. experience_id p = i \<and> p_is_active p = 1) (pairs w)) of
        [] \<Rightarrow> None | p # ps \<Rightarrow> Some p)"

definition mindarTargetUrl :: "string \<Rightarrow> 'n pair_row option \<Rightarrow> 'n json" where
  "mindarTargetUrl org pair =
     (case pair of
        None \<Rightarrow> JNull
      | Some p \<Rightarrow>
          (case mind_target_asset_id p of
             None \<Rightarrow> JNull
           | Some a \<Rightarrow> if mind_target_status p = Some ''ready'' \<and> a \<noteq> []
                       then JStr (org @ ''/public/assets/'' @ a) else JNull))"

definition videoUrl :: "string \<Rightarrow> 'n pair_row option \<Rightarrow> 'n json" where
  "videoUrl org pair =
     (case pair of
        None \<Rightarrow> JNull
      | Some p \<Rightarrow> if video_asset_id p \<noteq> [] then JStr (org @ ''/public/assets/'' @ video_asset_id p)
                  else JNull)"

definition public_experience ::
  "('n::linorder) runtime \<Rightarrow> string \<Rightarrow> 'n request \<Rightarrow> 'n world \<Rightarrow> 'n response \<times> 'n world" where
  "public_experience rt seg request w =
     (case decodeURIComponent rt seg of
        None \<Rightarrow> (error_response ''URI malformed'' 500, w)
      | Some qrId \<Rightarrow>
          (case find (\<lambda>x. qr_id x = qrId) (experiences w) of
             None \<Rightarrow> (error_response ''Not Found'' 404, w)
           | Some ex \<Rightarrow>
               if e_is_active ex = 0 then (error_response ''Not Found'' 404, w)
               else
                 let pair = select_pair w (eid ex)
                 in (Response 200 (JObj [(''ok'', JBool True),
                        (''experience'', JObj (mapExperience ex)),
                        (''mindarTargetUrl'', mindarTargetUrl (origin request) pair),
                        (''videoUrl'', videoUrl (origin request) pair),
                        (''mind_target_status'',
                           (case pair of None \<Rightarrow> JNull | Some p \<Rightarrow> opt_str (mind_target_status p))),
                        (''build'', JStr BUILD)]), w)))"

section \<open>Login of the staging worker\<close>

text \<open>\<^verbatim>\<open>POST /auth/login\<close> (part_001, lines 325-337): one fixed credential; \<open>now\<close> is
  \<^verbatim>\<open>Math.floor(Date.now() / 1000)\<close>.\<close>

definition auth_login ::
  "'n runtime \<Rightarrow> env \<Rightarrow> int \<Rightarrow> 'n request \<Rightarrow> 'n world \<Rightarrow> 'n response \<times> 'n world" where
  "auth_login rt e now request w =
     (let b = body request;
          email = map to_lower (text_or_empty rt (field b ''email''));
          password = (if truthy rt (field b ''password'') then String rt (the (field b ''password''))
                      else [])
      in if \<not> (email = ''admin@local'' \<and> password = ''admin123'')
         then (Response 401 (JObj [(''error'', JStr ''Invalid credentials''), (''build'', JStr BUILD),
                                   (''seen_email'', JStr email)]), w)
         else (Response 200 (JObj [(''token'', JStr (issueToken rt e now email)),
                                   (''build'', JStr BUILD)]), w))"

text \<open>\<^verbatim>\<open>GET /auth/me\<close> (lines 339-347) and \<^verbatim>\<open>POST /auth/logout\<close> (lines 349-351).\<close>

definition auth_me ::
  "'n runtime \<Rightarrow> env \<Rightarrow> int \<Rightarrow> 'n request \<Rightarrow> 'n world \<Rightarrow> 'n response \<times> 'n world" where
  "auth_me rt e now request w =
     (case requireUser rt e now request of
        None \<Rightarrow> (error_response ''Unauthorized'' 401, w)
      | Some email \<Rightarrow>
          (Response 200 (JObj [(''ok'', JBool True), (''user'', JObj [(''email'', JStr email)]),
                               (''build'', JStr BUILD)]), w))"

definition auth_logout :: "'n world \<Rightarrow> 'n response \<times> 'n world" where
  "auth_logout w = (Response 200 (JObj [(''ok'', JBool True), (''build'', JStr BUILD)]), w)"

section \<open>The worker\<close>

text \<open>What one request draws from the clock and the random source: the time in seconds
  and as ISO text, and two fresh identifiers.\<close>

record nondet =
  now_s :: int
  iso :: string
  uuid1 :: string
  uuid2 :: string

text \<open>The test before the protected routes (lines 353-363).\<close>

definition needsAuth :: "string \<Rightarrow> bool" where
  "needsAuth p = (prefix ''/experiences'' p \<or> prefix ''/pairs'' p \<or> prefix ''/uploads'' p)"

definition gate_rejects :: "env \<Rightarrow> string option \<Rightarrow> 'n request \<Rightarrow> bool" where
  "gate_rejects e user request =
     (let isUploadPut = prefix ''/uploads/put/'' (path request)
      in needsAuth (path request) \<and> user = None \<and> \<not> isUploadPut \<and> \<not> isJobSecretValid e request)"

text \<open>The routes after that test (lines 365-748), in the order of the source.\<close>

definition routes ::
  "('n::linorder) runtime \<Rightarrow> env \<Rightarrow> nondet \<Rightarrow> string option \<Rightarrow> 'n request \<Rightarrow> 'n world
     \<Rightarrow> 'n response \<times> 'n world" where
  "routes rt e nd user request w =
     (let p = path request; m = http_method request;
          expMatch = match_one ''/experiences/'' [] p;
          expPairsMatch = match_one ''/experiences/'' ''/pairs'' p;
          pairMatch = match_one ''/pairs/'' [] p
      in if p = ''/uploads/sign'' \<and> m = ''POST'' then uploads_sign rt e (uuid1 nd) request w
         else if prefix ''/uploads/put/'' p \<and> m = ''PUT'' then uploads_put rt e request w
         else if p = ''/uploads/complete'' \<and> m = ''POST'' then uploads_complete rt e (uuid1 nd) request w
         else if prefix ''/assets/'' p \<and> m = ''GET'' then assets_get rt e user request w
         else if p = ''/jobs/mindar/dispatch'' \<and> m = ''POST''
           then jobs_mindar_dispatch rt e (iso nd) user request w
         else if p = ''/jobs/mindar/complete'' \<and> m = ''POST''
           then jobs_mindar_complete rt e (iso nd) request w
         else if p = ''/experiences'' \<and> m = ''GET'' then experiences_list w
         else if p = ''/experiences'' \<and> m = ''POST''
           then experiences_create rt (uuid1 nd) (uuid2 nd) (iso nd) request w
         else if expMatch \<noteq> None \<and> m = ''GET'' then experience_get rt (the expMatch) w
         else if expMatch \<noteq> None \<and> m = ''PUT'' then experience_put rt (iso nd) (the expMatch) request w
         else if expMatch \<noteq> None \<and> m = ''DELETE'' then experience_delete rt (the expMatch) w
         else if expPairsMatch \<noteq> None \<and> m = ''GET''
           then experience_pairs_list rt e (the expPairsMatch) request w
         else if expPairsMatch \<noteq> None \<and> m = ''POST''
           then experience_pairs_create rt e (uuid1 nd) (iso nd) (the expPairsMatch) request w
         else if pairMatch \<noteq> None \<and> m = ''PUT'' then pairs_put rt e (iso nd) (the pairMatch) request w
         else if pairMatch \<noteq> None \<and> m = ''DELETE'' then pairs_delete rt (the pairMatch) w
         else (Response 404 (JObj [(''error'', JStr ''Not Found''), (''build'', JStr BUILD),
                                   (''path'', JStr p), (''method'', JStr m)]), w))"

text \<open>\<^verbatim>\<open>fetch\<close> (lines 238-753), the entry of the worker.\<close>

definition fetch ::
  "('n::linorder) runtime \<Rightarrow> env \<Rightarrow> nondet \<Rightarrow> 'n request \<Rightarrow> 'n world \<Rightarrow> 'n response \<times> 'n world" where
  "fetch rt e nd request w =
     (let p = path request; m = http_method request;
          publicMatch = match_one ''/public/experience/'' [] p
      in if m = ''OPTIONS'' then (Response 204 JNull, w)
         else if p = ''/api/health'' then
           (Response 200 (JObj [(''ok'', JBool True), (''service'', JStr ''vidcom-api''),
                                (''env'', JStr (str_or (NODE_ENV e) ''unknown'')),
                                (''build'', JStr BUILD), (''time'', JStr (iso nd))]), w)
         else if prefix ''/public/assets/'' p \<and> m = ''GET'' then public_assets rt request w
         else if publicMatch \<noteq> None \<and> m = ''GET'' then public_experience rt (the publicMatch) request w
         else if p = ''/auth/login'' \<and> m = ''POST'' then auth_login rt e (now_s nd) request w
         else if p = ''/auth/me'' \<and> m = ''GET'' then auth_me rt e (now_s nd) request w
         else if p = ''/auth/logout'' \<and> m = ''POST'' then auth_logout w
         else
           let user = requireUser rt e (now_s nd) request
           in if gate_rejects e user request then (error_response ''Unauthorized'' 401, w)
              else routes rt e nd user request w)"

section \<open>What a dispatch leaves behind\<close>

text \<open>
  The shape of a dispatch for the pair \<open>i\<close>, from the state \<open>w\<close> to the state \<open>w'\<close>,
  where \<open>ps\<close> is the \<^verbatim>\<open>pairs\<close> table as first written: every row with the id is
  \<open>pending\<close> in \<open>ps\<close>; the handler writes \<open>ps\<close>, then sends the workflow request if a token
  and a repository are configured, then, if nothing was sent or the answer was not ok,
  writes \<open>failed\<close> with the message \<^verbatim>\<open>Dispatch failed\<close> on the rows with the id, and does
  nothing else. After an accepted request the table stays \<open>ps\<close>, and so it does when
  the call of the endpoint rejects: \<open>dispatch_result\<close> is what the dispatch returns or
  throws.
\<close>

definition dispatch_result :: "'n runtime \<Rightarrow> env \<Rightarrow> dispatch_request \<Rightarrow> string + bool" where
  "dispatch_result rt e rq = (if configured e then github rt rq else Inr False)"

definition dispatch_failed_rows :: "string \<Rightarrow> 'n pair_row list \<Rightarrow> 'n pair_row list" where
  "dispatch_failed_rows i ps =
     map (\<lambda>p. if pid p = i then p\<lparr>mind_target_status := Some ''failed'',
                                     mind_target_error := Some ''Dispatch failed''\<rparr> else p) ps"

definition fire_and_forget ::
  "'n runtime \<Rightarrow> env \<Rightarrow> string \<Rightarrow> string \<Rightarrow> string \<Rightarrow> 'n pair_row list \<Rightarrow> 'n world \<Rightarrow> 'n world \<Rightarrow> bool" where
  "fire_and_forget rt e i imagePublicUrl apiBase ps w w' =
     (let rq = workflow_request e i imagePublicUrl apiBase;
          refused = (dispatch_result rt e rq = Inr False)
      in list_all (\<lambda>p. pid p = i \<longrightarrow> mind_target_status p = Some ''pending'') ps
         \<and> effects w' = effects w @ [Wrote_pairs ps] @ (if configured e then [Sent rq] else [])
                          @ (if refused then [Wrote_pairs (dispatch_failed_rows i ps)] else [])
         \<and> pairs w' = (if refused then dispatch_failed_rows i ps else ps))"

section \<open>The session variant of the worker\<close>

text \<open>
  The second worker (\<^verbatim>\<open>src/unnamed/part_002\<close>) keeps users with salted password hashes
  and opaque session tokens. Its tables \<^verbatim>\<open>users\<close> and \<^verbatim>\<open>sessions\<close>, and \<^verbatim>\<open>pairs\<close> with
  the same rows as above. The expiry of a session is the instant in milliseconds whose
  ISO text the source stores and parses back.
\<close>

record user_row =
  uid :: string
  u_email :: string
  password_hash :: string
  password_salt :: string
  u_role :: string
  u_is_active :: int

record session_row =
  s_token :: string
  user_id :: string
  s_created_at :: string
  expires_at :: int

record 'n session_world =
  users :: "user_row list"
  sessions :: "session_row list"
  s_pairs :: "'n pair_row list"

text \<open>\<^verbatim>\<open>errorResponse\<close> and \<^verbatim>\<open>jsonResponse\<close> (part_002, lines 27-39).\<close>

definition errorResponse :: "string \<Rightarrow> nat \<Rightarrow> 'n response" where
  "errorResponse message st = Response st (JObj [(''error'', JStr message)])"


text \<open>\<^verbatim>\<open>parseJsonBody\<close> (lines 139-148): \<^verbatim>\<open>null\<close> unless the content type names JSON.\<close>

definition parseJsonBody :: "'n request \<Rightarrow> 'n json" where
  "parseJsonBody request =
     (case content_type request of
        None \<Rightarrow> JNull
      | Some ct \<Rightarrow> if sublist ''application/json'' ct then body request else JNull)"


text \<open>\<^verbatim>\<open>parseAuthToken\<close> (lines 41-55): the bearer token, else the cookie
  \<^verbatim>\<open>session_token\<close>.\<close>

fun cookie_token :: "string list \<Rightarrow> string option" where
  "cookie_token [] = None"
| "cookie_token (part # parts) =
     (case split_on (CHR ''='') part of
        key # rest \<Rightarrow> if key = ''session_token'' then (case rest of [] \<Rightarrow> None | v # vs \<Rightarrow> Some v)
                      else cookie_token parts
      | [] \<Rightarrow> cookie_token parts)"

definition parseAuthToken :: "'n request \<Rightarrow> string option" where
  "parseAuthToken request =
     (if (case authorization request of None \<Rightarrow> False | Some a \<Rightarrow> prefix ''Bearer '' a)
      then Some (trim (drop 7 (the (authorization request))))
      else (case cookie request of
              None \<Rightarrow> None
            | Some c \<Rightarrow> if c = [] then None
                        else cookie_token (map trim (split_on (CHR '';'') c))))"

text \<open>\<^verbatim>\<open>requireAuth\<close> (lines 121-137); \<open>now\<close> is \<^verbatim>\<open>Date.now()\<close>. An expired session is
  deleted on the way.\<close>

definition requireAuth :: "int \<Rightarrow> 'n request \<Rightarrow> 'n session_world \<Rightarrow> user_row option \<times> 'n session_world" where
  "requireAuth now request w =
     (case parseAuthToken request of
        None \<Rightarrow> (None, w)
      | Some token \<Rightarrow>
          if token = [] then (None, w)
          else (case find (\<lambda>s. s_token s = token) (sessions w) of
                  None \<Rightarrow> (None, w)
                | Some session \<Rightarrow>
                    if expires_at session < now
                    then (None, w\<lparr>sessions := filter (\<lambda>s. s_token s \<noteq> token) (sessions w)\<rparr>)
                    else (case find (\<lambda>u. uid u = user_id session) (users w) of
                            None \<Rightarrow> (None, w)
                          | Some user \<Rightarrow> if u_is_active user = 0 then (None, w) else (Some user, w))))"


text \<open>
  \<^verbatim>\<open>PUT /pairs/:id\<close> of the session variant (lines 449-496): only the flag, the
  threshold and the priority can be set, each when the body has it with the right type.
  The id is the third piece of the path split at slashes. The stored fingerprint is
  parsed for the answer; where parsing throws, the worker fails with status 500.
\<close>

definition set_is_active :: "'n json \<Rightarrow> 'n pair_row \<Rightarrow> 'n pair_row" where
  "set_is_active b p =
     (case field b ''is_active'' of
        Some (JBool a) \<Rightarrow> p\<lparr>p_is_active := (if a then 1 else 0)\<rparr> | _ \<Rightarrow> p)"

definition set_threshold :: "'n json \<Rightarrow> 'n pair_row \<Rightarrow> 'n pair_row" where
  "set_threshold b p = (case field b ''threshold'' of Some (JNum x) \<Rightarrow> p\<lparr>threshold := x\<rparr> | _ \<Rightarrow> p)"

definition set_priority :: "'n json \<Rightarrow> 'n pair_row \<Rightarrow> 'n pair_row" where
  "set_priority b p = (case field b ''priority'' of Some (JNum x) \<Rightarrow> p\<lparr>priority := x\<rparr> | _ \<Rightarrow> p)"

definition typed_updates :: "'n json \<Rightarrow> 'n pair_row \<Rightarrow> 'n pair_row" where
  "typed_updates b p = set_priority b (set_threshold b (set_is_active b p))"

definition no_updates :: "'n json \<Rightarrow> bool" where
  "no_updates b =
     ((case field b ''is_active'' of Some (JBool a) \<Rightarrow> False | _ \<Rightarrow> True) \<and>
      (case field b ''threshold'' of Some (JNum x) \<Rightarrow> False | _ \<Rightarrow> True) \<and>
      (case field b ''priority'' of Some (JNum x) \<Rightarrow> False | _ \<Rightarrow> True))"

definition session_pair_json :: "'n runtime \<Rightarrow> 'n pair_row \<Rightarrow> 'n response" where
  "session_pair_json rt updated =
     (case (case image_fingerprint updated of None \<Rightarrow> Some JNull | Some fp \<Rightarrow> JSON_parse rt fp) of
        None \<Rightarrow> errorResponse ''Unexpected token'' 500
      | Some fp \<Rightarrow>
          Response 200 (JObj [(''id'', JStr (pid updated)),
            (''experience_id'', JStr (experience_id updated)),
            (''image_asset_id'', JStr (image_asset_id updated)),
            (''video_asset_id'', JStr (video_asset_id updated)),
            (''image_fingerprint'', fp),
            (''threshold'', JNum (threshold updated)),
            (''priority'', JNum (priority updated)),
            (''is_active'', JBool (p_is_active updated \<noteq> 0))]))"

definition session_pairs_put ::
  "'n runtime \<Rightarrow> int \<Rightarrow> 'n request \<Rightarrow> 'n session_world \<Rightarrow> 'n response \<times> 'n session_world" where
  "session_pairs_put rt now request w =
     (case requireAuth now request w of
        (None, w0) \<Rightarrow> (errorResponse ''Unauthorized'' 401, w0)
      | (Some user, w0) \<Rightarrow>
          let pieces = split_on (CHR ''/'') (path request);
              pairId = (if length pieces > 2 then pieces ! 2 else [])
          in if pairId = [] then (errorResponse ''Missing pair id'' 400, w0)
             else
               let b = parseJsonBody request
               in if \<not> truthy rt (Some b) then (errorResponse ''Expected JSON body'' 400, w0)
                  else if no_updates b then (errorResponse ''No updates provided'' 400, w0)
                  else
                    let w1 = w0\<lparr>s_pairs := map (\<lambda>p. if pid p = pairId then typed_updates b p else p)
                                                (s_pairs w0)\<rparr>
                    in (case find (\<lambda>p. pid p = pairId) (s_pairs w1) of
                          None \<Rightarrow> (errorResponse ''Not found'' 404, w1)
                        | Some updated \<Rightarrow> (session_pair_json rt updated, w1)))"

section \<open>What an update of a pair leaves as it was\<close>

text \<open>
  The row \<open>p'\<close> after \<^verbatim>\<open>PUT /pairs/:id\<close> of the staging worker with the body \<open>b\<close>,
  against the row \<open>existing\<close> before it: a column whose field the body does not have
  keeps its value; the completion time is never written; the generated asset, the status
  and the request time are kept when the image did not change. The error column is not
  part of the comparison.
\<close>

definition kept_by_staging_update ::
  "'n runtime \<Rightarrow> 'n json \<Rightarrow> 'n pair_row \<Rightarrow> 'n pair_row \<Rightarrow> bool" where
  "kept_by_staging_update rt b existing p' =
     (pid p' = pid existing
      \<and> (field b ''experience_id'' = None \<longrightarrow> experience_id p' = experience_id existing)
      \<and> (field b ''image_asset_id'' = None \<longrightarrow> image_asset_id p' = image_asset_id existing)
      \<and> (field b ''video_asset_id'' = None \<longrightarrow> video_asset_id p' = video_asset_id existing)
      \<and> (field b ''image_fingerprint'' = None \<longrightarrow> image_fingerprint p' = image_fingerprint existing)
      \<and> (field b ''threshold'' = None \<longrightarrow> threshold p' = threshold existing)
      \<and> (field b ''priority'' = None \<longrightarrow> priority p' = priority existing)
      \<and> (field b ''is_active'' = None \<longrightarrow> p_is_active p' = p_is_active existing)
      \<and> mind_target_completed_at p' = mind_target_completed_at existing
      \<and> (field b ''image_asset_id'' = None \<longrightarrow> \<not> imageChanged rt b existing)
      \<and> (\<not> imageChanged rt b existing \<longrightarrow>
            mind_target_asset_id p' = mind_target_asset_id existing
          \<and> mind_target_status p' = mind_target_status existing
          \<and> mind_target_requested_at p' = mind_target_requested_at existing))"

text \<open>The same for the session variant, which writes no column but the flag, the
  threshold and the priority.\<close>

definition kept_by_session_update :: "'n json \<Rightarrow> 'n pair_row \<Rightarrow> 'n pair_row \<Rightarrow> bool" where
  "kept_by_session_update b existing p' =
     (pid p' = pid existing
      \<and> experience_id p' = experience_id existing
      \<and> image_asset_id p' = image_asset_id existing
      \<and> video_asset_id p' = video_asset_id existing
      \<and> image_fingerprint p' = image_fingerprint existing
      \<and> mind_target_asset_id p' = mind_target_asset_id existing
      \<and> mind_target_status p' = mind_target_status existing
      \<and> mind_target_error p' = mind_target_error existing
      \<and> mind_target_requested_at p' = mind_target_requested_at existing
      \<and> mind_target_completed_at p' = mind_target_completed_at existing
      \<and> (field b ''threshold'' = None \<longrightarrow> threshold p' = threshold existing)
      \<and> (field b ''priority'' = None \<longrightarrow> priority p' = priority existing)
      \<and> (field b ''is_active'' = None \<longrightarrow> p_is_active p' = p_is_active existing))"

section \<open>The generation status of a pair over a request\<close>

text \<open>The three values of \<^verbatim>\<open>mind_target_status\<close>.\<close>

definition valid_status :: "'n pair_row \<Rightarrow> bool" where
  "valid_status p =
     (mind_target_status p = Some ''pending'' \<or> mind_target_status p = Some ''ready'' \<or>
      mind_target_status p = Some ''failed'')"

text \<open>A \<open>ready\<close> row has a generated asset and a \<open>failed\<close> row has an error.\<close>

definition carries :: "'n pair_row \<Rightarrow> bool" where
  "carries p =
     ((mind_target_status p = Some ''ready'' \<longrightarrow> mind_target_asset_id p \<noteq> None) \<and>
      (mind_target_status p = Some ''failed'' \<longrightarrow> mind_target_error p \<noteq> None))"

text \<open>
  One request takes the table \<open>ps\<close> to the table \<open>ps'\<close>: every row of \<open>ps'\<close> has one of
  the three values, and either has the status that a row of \<open>ps\<close> with its id had, or
  carries what its status asks for.
\<close>

definition status_step :: "'n pair_row list \<Rightarrow> 'n pair_row list \<Rightarrow> bool" where
  "status_step ps ps' =
     (list_all valid_status ps' \<and>
      list_all (\<lambda>p'. carries p' \<or>
                  list_ex (\<lambda>p. pid p = pid p' \<and> mind_target_status p = mind_target_status p') ps) ps')"



text \<open>Every row of \<open>ps'\<close> that is \<open>pending\<close> has a \<open>pending\<close> row of \<open>ps\<close> with its id,
  unless the request is \<open>allowed\<close> to set the status.\<close>

definition pending_step :: "bool \<Rightarrow> 'n pair_row list \<Rightarrow> 'n pair_row list \<Rightarrow> bool" where
  "pending_step allowed ps ps' =
     list_all (\<lambda>p'. mind_target_status p' = Some ''pending'' \<longrightarrow>
                 allowed \<or>
                 list_ex (\<lambda>p. pid p = pid p' \<and> mind_target_status p = Some ''pending'') ps) ps'"




section \<open>Concrete inputs\<close>

text \<open>A small runtime over integers, an environment, and a store with one experience
  and one pending pair, on which the theorems below are evaluated.\<close>

definition rt0 :: "int runtime" where
  "rt0 = \<lparr>num_truthy = (\<lambda>n. n \<noteq> 0), num_String = (\<lambda>n. ''#''),
          Number = (\<lambda>j. case j of JNum n \<Rightarrow> n | _ \<Rightarrow> 0),
          lit_0_8 = 8, lit_0 = 0, JSON_stringify = (\<lambda>j. ''{}''), JSON_parse = (\<lambda>s. None),
          hmacSign = (\<lambda>secret data. secret @ ''/'' @ data), sha256Hex = (\<lambda>s. ''h:'' @ s),
          decodeURIComponent = Some, encodeURIComponent = (\<lambda>s. s),
          encode_payload = (\<lambda>email iat ex. email), decode_payload = (\<lambda>s. Some (s, 2000000000)),
          github = (\<lambda>rq. Inr (d_ref rq = ''main''))\<rparr>"

text \<open>The same runtime at a time when the workflow endpoint cannot be reached: the call
  rejects.\<close>

definition rt_down :: "int runtime" where
  "rt_down = rt0\<lparr>github := (\<lambda>rq. Inl ''Network connection lost.'')\<rparr>"

definition env0 :: env where
  "env0 = \<lparr>NODE_ENV = None, SESSION_SECRET = None, SIGNING_SECRET = Some ''k'',
           MINDAR_JOB_SECRET = Some ''s3'', GITHUB_TOKEN = Some ''gh'', GITHUB_REPO = Some ''o/r'',
           GITHUB_REF = None\<rparr>"

definition pair0 :: "int pair_row" where
  "pair0 = \<lparr>pid = ''p1'', experience_id = ''e1'', image_asset_id = ''img1'', video_asset_id = ''vid1'',
            mind_target_asset_id = None, mind_target_status = Some ''pending'', mind_target_error = None,
            mind_target_requested_at = Some ''t0'', mind_target_completed_at = None,
            image_fingerprint = None, threshold = 8, priority = 0, p_is_active = 1\<rparr>"

definition world0 :: "int world" where
  "world0 = \<lparr>experiences = [\<lparr>eid = ''e1'', e_name = ''Demo'', qr_id = ''ab12cd34ef'', e_is_active = 1,
                               created_at = ''t0'', updated_at = ''t0''\<rparr>],
             assets = [], pairs = [pair0], bucket = Map.empty, effects = []\<rparr>"

definition job_request :: "int json \<Rightarrow> int request" where
  "job_request b = \<lparr>http_method = ''POST'', path = ''/jobs/mindar/complete'', origin = ''https://api'',
        authorization = None, x_job_secret = Some ''s3'',
        content_type = Some ''application/json'', cookie = None, q_token = None, q_mime = None,
        body = b, raw = []\<rparr>"

definition put_request :: "string \<Rightarrow> string option \<Rightarrow> string \<Rightarrow> int request" where
  "put_request enc tk bytes = \<lparr>http_method = ''PUT'', path = ''/uploads/put/'' @ enc, origin = ''https://api'',
        authorization = None, x_job_secret = None, content_type = Some ''image/png'', cookie = None,
        q_token = tk, q_mime = Some ''image/png'', body = JNull, raw = bytes\<rparr>"

definition nd0 :: nondet where
  "nd0 = \<lparr>now_s = 1000, iso = ''t1'', uuid1 = ''u1'', uuid2 = ''u2-u2''\<rparr>"

definition list_request :: "int request" where
  "list_request = \<lparr>http_method = ''GET'', path = ''/experiences'', origin = ''https://api'',
        authorization = None, x_job_secret = Some ''s3'', content_type = None, cookie = None,
        q_token = None, q_mime = None, body = JNull, raw = []\<rparr>"

definition public_request :: "string \<Rightarrow> int request" where
  "public_request seg = \<lparr>http_method = ''GET'', path = ''/public/experience/'' @ seg, origin = ''https://api'',
        authorization = None, x_job_secret = None, content_type = None, cookie = None,
        q_token = None, q_mime = None, body = JNull, raw = []\<rparr>"

definition pair_failed :: "int pair_row" where
  "pair_failed = pair0\<lparr>mind_target_status := Some ''failed'', mind_target_error := Some ''timeout'',
                        mind_target_completed_at := Some ''t1''\<rparr>"

definition pair_ready :: "int pair_row" where
  "pair_ready = pair0\<lparr>mind_target_asset_id := Some ''mind1'', mind_target_status := Some ''ready'',
                       mind_target_completed_at := Some ''t1''\<rparr>"

definition world_ready :: "int world" where
  "world_ready = world0\<lparr>pairs := [pair_ready\<lparr>pid := ''p0'', priority := 5\<rparr>, pair_failed,
                                   pair_ready\<lparr>pid := ''p2'', p_is_active := 0, priority := 9\<rparr>]\<rparr>"

definition world_failed :: "int world" where
  "world_failed = world0\<lparr>pairs := [pair_failed]\<rparr>"

definition world_inactive :: "int world" where
  "world_inactive = world0\<lparr>experiences := map (\<lambda>x. x\<lparr>e_is_active := 0\<rparr>) (experiences world0),
                           pairs := [pair_ready]\<rparr>"

definition dispatch_body :: "int json" where
  "dispatch_body = JObj [(''pairId'', JStr ''p1''), (''image_asset_id'', JStr ''img2''),
                         (''video_asset_id'', JStr ''vid2'')]"

definition env_refused :: env where
  "env_refused = env0\<lparr>GITHUB_REF := Some ''dev''\<rparr>"

definition env_unconfigured :: env where
  "env_unconfigured = env0\<lparr>GITHUB_TOKEN := None\<rparr>"

definition image_body :: "string \<Rightarrow> int json" where
  "image_body x = JObj [(''image_asset_id'', JStr x)]"

definition world_one_ready :: "int world" where
  "world_one_ready = world0\<lparr>pairs := [pair_ready]\<rparr>"

text \<open>The dispatch endpoint asked by a signed-in user, the creation of a pair and an update
  that changes the image, the last two with the job secret.\<close>

definition retry_request :: "int request" where
  "retry_request = \<lparr>http_method = ''POST'', path = ''/jobs/mindar/dispatch'', origin = ''https://api'',
        authorization = Some ''Bearer admin@local.k/admin@local'', x_job_secret = None,
        content_type = Some ''application/json'', cookie = None, q_token = None, q_mime = None,
        body = dispatch_body, raw = []\<rparr>"

definition create_request :: "int request" where
  "create_request = (job_request dispatch_body)\<lparr>path := ''/experiences/e1/pairs''\<rparr>"

definition change_request :: "int request" where
  "change_request = (job_request (image_body ''img2''))\<lparr>http_method := ''PUT'', path := ''/pairs/p1''\<rparr>"

definition user0 :: user_row where
  "user0 = \<lparr>uid = ''u-admin'', u_email = ''admin@local'', password_hash = ''h:s1:admin123'',
            password_salt = ''s1'', u_role = ''admin'', u_is_active = 1\<rparr>"

definition sworld0 :: "int session_world" where
  "sworld0 = \<lparr>users = [user0],
              sessions = [\<lparr>s_token = ''tok0'', user_id = ''u-admin'', s_created_at = ''t0'',
                           expires_at = 5000\<rparr>],
              s_pairs = [pair_failed]\<rparr>"

definition session_request :: "string \<Rightarrow> string \<Rightarrow> int json \<Rightarrow> int request" where
  "session_request m p b = \<lparr>http_method = m, path = p, origin = ''https://api'',
        authorization = Some ''Bearer tok0'', x_job_secret = None,
        content_type = Some ''application/json'', cookie = None, q_token = None, q_mime = None,
        body = b, raw = []\<rparr>"

definition priority_body :: "int json" where
  "priority_body = JObj [(''priority'', JNum 7)]"


section \<open>Lemmas on the tables\<close>

lemma find_map_upd:
  "(\<And>p. pid (f p) = pid p) \<Longrightarrow>
   find (\<lambda>p. pid p = j) (map (\<lambda>p. if pid p = i then f p else p) ps)
     = (if j = i then map_option f (find (\<lambda>p. pid p = j) ps) else find (\<lambda>p. pid p = j) ps)"
  by (induction ps) auto


section \<open>The completion callback records the outcome\<close>






section \<open>Uploads are admitted by their signature alone\<close>

lemma fetch_uploads_put:
  assumes "path request = ''/uploads/put/'' @ x" and "http_method request = ''PUT''"
  shows "fetch rt e nd request w = uploads_put rt e request w"
  using assms by (simp add: fetch_def routes_def gate_rejects_def match_one_def Let_def)

text \<open>An empty key is answered 404 before the token is looked at, whatever the token is.\<close>

lemma putUpload_empty_key:
  assumes "path request = ''/uploads/put/'' @ enc" and "http_method request = ''PUT''"
    and "decodeURIComponent rt enc = Some []"
  shows "fetch rt e nd request w = (error_response ''Not Found'' 404, w)"
  by (simp add: fetch_uploads_put[OF assms(1,2)] uploads_put_def assms(1,3))

text \<open>
  Claim C7, as the code has it. A \<^verbatim>\<open>PUT\<close> under \<^verbatim>\<open>/uploads/put/\<close> is served without a
  bearer token or job secret. For a key that is not empty, the body is written to the
  bucket under the key and the answer is 200 exactly when the \<^verbatim>\<open>token\<close> parameter is
  present, non-empty and equal to the HMAC of \<^verbatim>\<open>upload:\<close> followed by the key; otherwise
  the answer is 401 and nothing is written. The handler keeps no record of a token, so
  the same holds in every state: a signature succeeds each time it is presented.
\<close>

theorem putUpload_token:
  assumes "path request = ''/uploads/put/'' @ enc" and "http_method request = ''PUT''"
    and "decodeURIComponent rt enc = Some key" and "key \<noteq> []"
  shows "fetch rt e nd request w =
           (if \<exists>tk. q_token request = Some tk \<and> tk \<noteq> [] \<and> tk = buildUploadToken rt e key
            then (Response 200 (JObj [(''ok'', JBool True), (''r2Key'', JStr key), (''build'', JStr BUILD)]),
                  w\<lparr>bucket := (bucket w)(key \<mapsto>
                       (raw request, str_or (q_mime request) ''application/octet-stream''))\<rparr>)
            else (error_response ''Unauthorized'' 401, w))"
  using assms(3,4)
  by (auto simp: fetch_uploads_put[OF assms(1,2)] uploads_put_def verifyUploadToken_def Let_def assms(1)
           split: option.splits)

theorem putUpload_token_witness:
  "fetch rt0 env0 nd0 (put_request ''image/a.png'' (Some ''k/upload:image/a.png'') ''AAA'') world0
     = (Response 200 (JObj [(''ok'', JBool True), (''r2Key'', JStr ''image/a.png''), (''build'', JStr BUILD)]),
        world0\<lparr>bucket := (bucket world0)(''image/a.png'' \<mapsto> (''AAA'', ''image/png''))\<rparr>)
   \<and> fetch rt0 env0 nd0 (put_request ''image/a.png'' (Some ''k/upload:image/b.png'') ''AAA'') world0
     = (error_response ''Unauthorized'' 401, world0)"
  using putUpload_token [of "put_request ''image/a.png'' (Some ''k/upload:image/a.png'') ''AAA''"
                            "''image/a.png''" rt0 "''image/a.png''" env0 nd0 world0]
        putUpload_token [of "put_request ''image/a.png'' (Some ''k/upload:image/b.png'') ''AAA''"
                            "''image/a.png''" rt0 "''image/a.png''" env0 nd0 world0]
  by (simp add: put_request_def rt0_def env0_def buildUploadToken_def signing_secret_def str_or_def)

text \<open>
  Claim C7 as it is written asks for exactly one success for each signature, and for 401
  on every refusal. One signature writes twice here, the second body replacing the first;
  and the empty key is answered 404 though its token is the recomputed signature.
\<close>

theorem putUpload_token_counterexample:
  "status (fst (fetch rt0 env0 nd0 (put_request ''image/a.png'' (Some ''k/upload:image/a.png'') ''AAA'') world0)) = 200
   \<and> status (fst (fetch rt0 env0 nd0 (put_request ''image/a.png'' (Some ''k/upload:image/a.png'') ''BBB'')
        (snd (fetch rt0 env0 nd0 (put_request ''image/a.png'' (Some ''k/upload:image/a.png'') ''AAA'') world0)))) = 200
   \<and> bucket (snd (fetch rt0 env0 nd0 (put_request ''image/a.png'' (Some ''k/upload:image/a.png'') ''BBB'')
        (snd (fetch rt0 env0 nd0 (put_request ''image/a.png'' (Some ''k/upload:image/a.png'') ''AAA'') world0))))
        ''image/a.png'' = Some (''BBB'', ''image/png'')
   \<and> Some ''k/upload:'' = Some (buildUploadToken rt0 env0 [])
   \<and> fetch rt0 env0 nd0 (put_request [] (Some ''k/upload:'') ''AAA'') world0
        = (error_response ''Not Found'' 404, world0)"
  by (simp add: fetch_uploads_put[of _ "''image/a.png''"] fetch_uploads_put[of _ "[]"] put_request_def uploads_put_def verifyUploadToken_def
      rt0_def env0_def buildUploadToken_def signing_secret_def str_or_def Let_def)

section \<open>The job secret opens the protected routes\<close>

lemma needsAuth_cases:
  assumes "needsAuth p"
  obtains x where "p = ''/experiences'' @ x" | x where "p = ''/pairs'' @ x" | x where "p = ''/uploads'' @ x"
  using assms unfolding needsAuth_def by (auto elim: prefixE)

lemma needsAuth_not_public:
  assumes "needsAuth p"
  shows "p \<noteq> ''/api/health''" "\<not> prefix ''/public/assets/'' p"
    "match_one ''/public/experience/'' [] p = None"
    "p \<noteq> ''/auth/login''" "p \<noteq> ''/auth/me''" "p \<noteq> ''/auth/logout''"
    "\<not> prefix ''/assets/'' p" "p \<noteq> ''/jobs/mindar/dispatch''" "p \<noteq> ''/jobs/mindar/complete''"
  using assms by (cases rule: needsAuth_cases; simp add: match_one_def)+

lemma fetch_protected:
  assumes "needsAuth (path request)" and "http_method request \<noteq> ''OPTIONS''"
  shows "fetch rt e nd request w =
           (if gate_rejects e (requireUser rt e (now_s nd) request) request
            then (error_response ''Unauthorized'' 401, w)
            else routes rt e nd (requireUser rt e (now_s nd) request) request w)"
  unfolding fetch_def Let_def
  using needsAuth_not_public[OF assms(1)] assms(2) by (simp split del: if_split cong del: if_weak_cong)

lemma routes_protected_user:
  assumes "needsAuth (path request)"
  shows "routes rt e nd user request w = routes rt e nd None request w"
  unfolding routes_def Let_def
  using needsAuth_not_public[OF assms(1)] by (simp split del: if_split cong del: if_weak_cong)

text \<open>
  Claim C10. For a request under \<^verbatim>\<open>/experiences\<close>, \<^verbatim>\<open>/pairs\<close> or \<^verbatim>\<open>/uploads\<close> whose
  \<^verbatim>\<open>x-job-secret\<close> header equals the configured, non-empty \<^verbatim>\<open>MINDAR_JOB_SECRET\<close>, the test
  before the protected routes does not reject, whatever the \<^verbatim>\<open>Authorization\<close> header is,
  and the worker answers as the routes do for a request without a user.
\<close>

theorem job_secret_bypasses_bearer:
  assumes "needsAuth (path request)" and "http_method request \<noteq> ''OPTIONS''"
    and "MINDAR_JOB_SECRET e = Some s" and "s \<noteq> []" and "x_job_secret request = Some s"
  shows "\<not> gate_rejects e (requireUser rt e (now_s nd) request) request
       \<and> fetch rt e nd request w = routes rt e nd None request w"
proof -
  have v: "isJobSecretValid e request" using assms(3-5) by (simp add: isJobSecretValid_def str_or_def)
  then have g: "\<not> gate_rejects e (requireUser rt e (now_s nd) request) request"
    by (simp add: gate_rejects_def)
  have "fetch rt e nd request w = routes rt e nd (requireUser rt e (now_s nd) request) request w"
    using g by (simp add: fetch_protected[OF assms(1,2)])
  also have "\<dots> = routes rt e nd None request w" by (rule routes_protected_user[OF assms(1)])
  finally show ?thesis using g by simp
qed


theorem job_secret_bypasses_bearer_witness:
  "requireUser rt0 env0 (now_s nd0) list_request = None
   \<and> fetch rt0 env0 nd0 list_request world0
     = (Response 200 (JObj [(''experiences'', JArr [JObj [(''id'', JStr ''e1''), (''name'', JStr ''Demo''),
            (''qr_id'', JStr ''ab12cd34ef''), (''is_active'', JBool True)]]), (''build'', JStr BUILD)]), world0)
   \<and> fetch rt0 env0 nd0 (list_request\<lparr>x_job_secret := None\<rparr>) world0
     = (error_response ''Unauthorized'' 401, world0)"
proof -
  have n: "needsAuth (path list_request)" by (simp add: needsAuth_def list_request_def)
  have m: "http_method list_request \<noteq> ''OPTIONS''" by (simp add: list_request_def)
  have u: "requireUser rt0 env0 (now_s nd0) r = None" if "authorization r = None" for r :: "int request"
    using that by (simp add: requireUser_def getBearerToken_def str_or_def)
  have "fetch rt0 env0 nd0 list_request world0 = routes rt0 env0 nd0 None list_request world0"
    using job_secret_bypasses_bearer [OF n m, of env0 "''s3''" rt0 nd0 world0]
    by (simp add: env0_def list_request_def)
  moreover have "routes rt0 env0 nd0 None list_request world0
     = (Response 200 (JObj [(''experiences'', JArr [JObj [(''id'', JStr ''e1''), (''name'', JStr ''Demo''),
            (''qr_id'', JStr ''ab12cd34ef''), (''is_active'', JBool True)]]), (''build'', JStr BUILD)]), world0)"
    by (simp add: routes_def list_request_def experiences_list_def world0_def mapExperience_def Let_def)
  moreover have "fetch rt0 env0 nd0 (list_request\<lparr>x_job_secret := None\<rparr>) world0
     = (error_response ''Unauthorized'' 401, world0)"
    using u[of "list_request\<lparr>x_job_secret := None\<rparr>"]
    by (simp add: fetch_def list_request_def match_one_def gate_rejects_def needsAuth_def
          isJobSecretValid_def str_or_def env0_def Let_def)
  ultimately show ?thesis using u[of list_request] by (simp add: list_request_def)
qed

section \<open>Public resolution: status and URLs\<close>

lemma fetch_public_experience:
  assumes "path request = ''/public/experience/'' @ seg" and "seg \<noteq> []" and "CHR ''/'' \<notin> set seg"
    and "http_method request = ''GET''"
  shows "fetch rt e nd request w = public_experience rt seg request w"
  using assms by (simp add: fetch_def match_one_def Let_def)

lemma nullish_simps [simp]:
  "nullish None" "nullish (Some JNull)" "\<not> nullish (Some (JStr s))" "\<not> nullish (Some (JBool b))"
  by (simp_all add: nullish_def)

lemmas public_eval = public_experience_def mindarTargetUrl_def videoUrl_def opt_str_def select_pair_def
  order_pairs_def error_response_def Let_def less_eq_prod_def less_prod_def
  world0_def pair0_def pair_ready_def pair_failed_def world_ready_def world_failed_def world_inactive_def
  rt0_def public_request_def

text \<open>
  Claim C5. In the answer to a public resolution, \<^verbatim>\<open>mindarTargetUrl\<close> is not null only
  when the experience is active and its selected pair has status \<open>ready\<close> and a non-empty
  generated asset id, and then the status string of the answer is \<open>ready\<close>. When no
  experience has the code, or the experience is inactive, or it has no active pair, the
  answer carries no tracking-target URL, no video URL and no status string.
\<close>

theorem public_status_agrees:
  assumes "path request = ''/public/experience/'' @ seg" and "seg \<noteq> []" and "CHR ''/'' \<notin> set seg"
    and "http_method request = ''GET''" and "decodeURIComponent rt seg = Some qrId"
    and "resp = fst (fetch rt e nd request w)"
  shows "(\<not> nullish (field (payload resp) ''mindarTargetUrl'') \<longrightarrow>
            field (payload resp) ''mind_target_status'' = Some (JStr ''ready'')
          \<and> (\<exists>ex p a. find (\<lambda>x. qr_id x = qrId) (experiences w) = Some ex \<and> e_is_active ex \<noteq> 0
                \<and> select_pair w (eid ex) = Some p \<and> mind_target_status p = Some ''ready''
                \<and> mind_target_asset_id p = Some a \<and> a \<noteq> []))
       \<and> ((case find (\<lambda>x. qr_id x = qrId) (experiences w) of
              None \<Rightarrow> True
            | Some ex \<Rightarrow> e_is_active ex = 0 \<or> select_pair w (eid ex) = None) \<longrightarrow>
            nullish (field (payload resp) ''mindarTargetUrl'')
          \<and> nullish (field (payload resp) ''videoUrl'')
          \<and> nullish (field (payload resp) ''mind_target_status''))"
  unfolding assms(6) fetch_public_experience[OF assms(1-4)]
  using assms(5)
  by (auto simp: public_experience_def error_response_def mindarTargetUrl_def videoUrl_def opt_str_def Let_def
           split: option.splits)

theorem public_status_agrees_witness:
  "\<not> nullish (field (payload (fst (fetch rt0 env0 nd0 (public_request ''ab12cd34ef'') world_ready))) ''mindarTargetUrl'')
   \<and> field (payload (fst (fetch rt0 env0 nd0 (public_request ''ab12cd34ef'') world_ready))) ''mind_target_status''
       = Some (JStr ''ready'')
   \<and> find (\<lambda>x. qr_id x = ''ab12cd34ef'') (experiences world_inactive) \<noteq> None
   \<and> nullish (field (payload (fst (fetch rt0 env0 nd0 (public_request ''ab12cd34ef'') world_inactive))) ''mindarTargetUrl'')
   \<and> nullish (field (payload (fst (fetch rt0 env0 nd0 (public_request ''ab12cd34ef'') world_inactive))) ''videoUrl'')
   \<and> nullish (field (payload (fst (fetch rt0 env0 nd0 (public_request ''ab12cd34ef'') world_inactive)))
         ''mind_target_status'')"
proof -
  let ?r = "public_request ''ab12cd34ef''"
  have r: "path ?r = ''/public/experience/'' @ ''ab12cd34ef''" "''ab12cd34ef'' \<noteq> []"
      "CHR ''/'' \<notin> set ''ab12cd34ef''" "http_method ?r = ''GET''"
      "decodeURIComponent rt0 ''ab12cd34ef'' = Some ''ab12cd34ef''"
    by (simp_all add: public_request_def rt0_def)
  have a: "\<not> nullish (field (payload (fst (fetch rt0 env0 nd0 ?r world_ready))) ''mindarTargetUrl'')"
    unfolding fetch_public_experience[OF r(1-4)] by (simp add: public_eval)
  have b: "find (\<lambda>x. qr_id x = ''ab12cd34ef'') (experiences world_inactive)
             = Some \<lparr>eid = ''e1'', e_name = ''Demo'', qr_id = ''ab12cd34ef'', e_is_active = 0,
                     created_at = ''t0'', updated_at = ''t0''\<rparr>"
    by (simp add: world_inactive_def world0_def)
  show ?thesis
    using public_status_agrees [OF r refl, of env0 nd0 world_ready]
          public_status_agrees [OF r refl, of env0 nd0 world_inactive] a b
    by simp
qed

text \<open>
  Claim C4, as the code has it. The answer is 404 exactly when no experience has the code
  or the experience found is inactive, and 200 otherwise. For an active experience whose
  selected pair is missing or not \<open>ready\<close>, \<^verbatim>\<open>mindarTargetUrl\<close> is null; \<^verbatim>\<open>videoUrl\<close> is
  null exactly when no active pair is selected or the selected pair has an empty video
  asset id, so a pending or failed pair still gives its video URL.
\<close>

theorem public_not_found:
  assumes "path request = ''/public/experience/'' @ seg" and "seg \<noteq> []" and "CHR ''/'' \<notin> set seg"
    and "http_method request = ''GET''" and "decodeURIComponent rt seg = Some qrId"
    and "resp = fst (fetch rt e nd request w)"
  shows "(status resp = 404 \<longleftrightarrow>
            (case find (\<lambda>x. qr_id x = qrId) (experiences w) of None \<Rightarrow> True | Some ex \<Rightarrow> e_is_active ex = 0))
       \<and> (status resp \<noteq> 404 \<longrightarrow> status resp = 200)
       \<and> (\<forall>ex. find (\<lambda>x. qr_id x = qrId) (experiences w) = Some ex \<and> e_is_active ex \<noteq> 0 \<longrightarrow>
            ((case select_pair w (eid ex) of
                None \<Rightarrow> True
              | Some p \<Rightarrow> mind_target_status p \<noteq> Some ''ready'') \<longrightarrow>
               field (payload resp) ''mindarTargetUrl'' = Some JNull)
          \<and> (field (payload resp) ''videoUrl'' = Some JNull \<longleftrightarrow>
               (case select_pair w (eid ex) of None \<Rightarrow> True | Some p \<Rightarrow> video_asset_id p = [])))"
  unfolding assms(6) fetch_public_experience[OF assms(1-4)]
  using assms(5)
  by (auto simp: public_experience_def error_response_def mindarTargetUrl_def videoUrl_def opt_str_def Let_def
           split: option.splits)

theorem public_not_found_witness:
  "status (fst (fetch rt0 env0 nd0 (public_request ''zz'') world_failed)) = 404
   \<and> status (fst (fetch rt0 env0 nd0 (public_request ''ab12cd34ef'') world_inactive)) = 404
   \<and> status (fst (fetch rt0 env0 nd0 (public_request ''ab12cd34ef'') world_failed)) = 200
   \<and> field (payload (fst (fetch rt0 env0 nd0 (public_request ''ab12cd34ef'') world_failed))) ''mindarTargetUrl''
       = Some JNull
   \<and> field (payload (fst (fetch rt0 env0 nd0 (public_request ''ab12cd34ef'') world_failed))) ''videoUrl''
       \<noteq> Some JNull"
proof -
  let ?r = "public_request ''ab12cd34ef''"
  have r: "path ?r = ''/public/experience/'' @ ''ab12cd34ef''" "''ab12cd34ef'' \<noteq> []"
      "CHR ''/'' \<notin> set ''ab12cd34ef''" "http_method ?r = ''GET''"
      "decodeURIComponent rt0 ''ab12cd34ef'' = Some ''ab12cd34ef''"
    by (simp_all add: public_request_def rt0_def)
  let ?z = "public_request ''zz''"
  have z: "path ?z = ''/public/experience/'' @ ''zz''" "''zz'' \<noteq> []"
      "CHR ''/'' \<notin> set ''zz''" "http_method ?z = ''GET''"
      "decodeURIComponent rt0 ''zz'' = Some ''zz''"
    by (simp_all add: public_request_def rt0_def)
  have f: "find (\<lambda>x. qr_id x = ''zz'') (experiences world_failed) = None"
      "find (\<lambda>x. qr_id x = ''ab12cd34ef'') (experiences world_inactive)
             = Some \<lparr>eid = ''e1'', e_name = ''Demo'', qr_id = ''ab12cd34ef'', e_is_active = 0,
                     created_at = ''t0'', updated_at = ''t0''\<rparr>"
      "find (\<lambda>x. qr_id x = ''ab12cd34ef'') (experiences world_failed)
             = Some \<lparr>eid = ''e1'', e_name = ''Demo'', qr_id = ''ab12cd34ef'', e_is_active = 1,
                     created_at = ''t0'', updated_at = ''t0''\<rparr>"
      "select_pair world_failed ''e1'' = Some pair_failed"
    by (simp_all add: world_inactive_def world_failed_def world0_def select_pair_def order_pairs_def
          pair_failed_def pair0_def)
  have v: "mind_target_status pair_failed \<noteq> Some ''ready''" "video_asset_id pair_failed \<noteq> []"
    by (simp_all add: pair_failed_def pair0_def)
  show ?thesis
    using public_not_found [OF z refl, of env0 nd0 world_failed]
          public_not_found [OF r refl, of env0 nd0 world_inactive]
          public_not_found [OF r refl, of env0 nd0 world_failed] f v
    by simp
qed

text \<open>
  Claim C4 as it is written has both URL fields null when no pair is ready. With one
  failed pair the answer is 200 and its \<^verbatim>\<open>videoUrl\<close> points at the video asset.
\<close>

theorem public_not_found_counterexample:
  "map mind_target_status (pairs world_failed) = [Some ''failed'']
   \<and> fst (fetch rt0 env0 nd0 (public_request ''ab12cd34ef'') world_failed)
     = Response 200 (JObj [(''ok'', JBool True),
          (''experience'', JObj [(''id'', JStr ''e1''), (''name'', JStr ''Demo''),
                                 (''qr_id'', JStr ''ab12cd34ef''), (''is_active'', JBool True)]),
          (''mindarTargetUrl'', JNull),
          (''videoUrl'', JStr ''https://api/public/assets/vid1''),
          (''mind_target_status'', JStr ''failed''),
          (''build'', JStr BUILD)])"
proof -
  let ?r = "public_request ''ab12cd34ef''"
  have r: "path ?r = ''/public/experience/'' @ ''ab12cd34ef''" "''ab12cd34ef'' \<noteq> []"
      "CHR ''/'' \<notin> set ''ab12cd34ef''" "http_method ?r = ''GET''"
    by (simp_all add: public_request_def)
  show ?thesis
    unfolding fetch_public_experience[OF r] by (simp add: public_eval mapExperience_def)
qed

section \<open>Dispatch is fire and forget\<close>

lemma dispatch_tail:
  assumes "list_all (\<lambda>p. pid p = i \<longrightarrow> mind_target_status p = Some ''pending'') ps"
    and "w' = (let rw = dispatchMindarJob rt e i url api (write_pairs ps w)
               in case fst rw of
                    Inl msg \<Rightarrow> snd rw
                  | Inr ok \<Rightarrow> if \<not> ok then mark_dispatch_failed i (snd rw) else snd rw)"
  shows "fire_and_forget rt e i url api ps w w'"
  using assms
  by (simp add: fire_and_forget_def dispatch_result_def dispatchMindarJob_def mark_dispatch_failed_def
        update_pair_def write_pairs_def dispatch_failed_rows_def Let_def split: sum.splits)

lemma snd_answer:
  "snd (case r of Inl msg \<Rightarrow> (a msg, w) | Inr ok \<Rightarrow> (b ok, c ok)) =
     (case r of Inl msg \<Rightarrow> w | Inr ok \<Rightarrow> c ok)"
  by (cases r) simp_all

lemma list_all_marked:
  assumes "\<And>p. mind_target_status (f p) = Some s"
  shows "list_all (\<lambda>p. pid p = i \<longrightarrow> mind_target_status p = Some s)
           (map (\<lambda>p. if pid p = i then f p else p) ps)"
  by (induction ps) (simp_all add: assms)

lemma dispatch_site_endpoint:
  assumes "user = Some email"
    and "text_or_empty rt (field (body request) ''pairId'') = i" and "i \<noteq> []"
    and "text_or_empty rt (field (body request) ''image_asset_id'') = img" and "img \<noteq> []"
  shows "fire_and_forget rt e i (origin request @ ''/public/assets/'' @ img) (origin request)
           (map (\<lambda>p. if pid p = i then p\<lparr>mind_target_status := Some ''pending'', mind_target_error := None,
                                            mind_target_requested_at := Some t\<rparr> else p) (pairs w))
           w (snd (jobs_mindar_dispatch rt e t user request w))"
proof (rule dispatch_tail)
  show "list_all (\<lambda>p. pid p = i \<longrightarrow> mind_target_status p = Some ''pending'')
          (map (\<lambda>p. if pid p = i then p\<lparr>mind_target_status := Some ''pending'', mind_target_error := None,
                                           mind_target_requested_at := Some t\<rparr> else p) (pairs w))"
    by (rule list_all_marked) simp
  show "snd (jobs_mindar_dispatch rt e t user request w) =
        (let rw = dispatchMindarJob rt e i (origin request @ ''/public/assets/'' @ img) (origin request)
             (write_pairs (map (\<lambda>p. if pid p = i then p\<lparr>mind_target_status := Some ''pending'',
                 mind_target_error := None, mind_target_requested_at := Some t\<rparr> else p) (pairs w)) w)
         in case fst rw of
              Inl msg \<Rightarrow> snd rw
            | Inr ok \<Rightarrow> if \<not> ok then mark_dispatch_failed i (snd rw) else snd rw)"
    using assms
    by (simp add: jobs_mindar_dispatch_def update_pair_def Let_def case_prod_beta snd_answer
          cong: sum.case_cong cong del: if_weak_cong)
qed

lemma dispatch_site_create:
  assumes "decodeURIComponent rt seg = Some expId"
    and "text_or_empty rt (field (body request) ''image_asset_id'') = img" and "img \<noteq> []"
    and "text_or_empty rt (field (body request) ''video_asset_id'') = vid" and "vid \<noteq> []"
    and "pair_by_id w u = None"
  shows "\<exists>row. pid row = u \<and> experience_id row = expId \<and> image_asset_id row = img \<and>
           video_asset_id row = vid \<and>
           fire_and_forget rt e u (origin request @ ''/public/assets/'' @ img) (origin request)
             (pairs w @ [row]) w (snd (experience_pairs_create rt e u t seg request w))"
proof -
  define row where "row = \<lparr>pid = u, experience_id = expId, image_asset_id = img,
      video_asset_id = vid, mind_target_asset_id = None,
      mind_target_status = Some ''pending'', mind_target_error = None,
      mind_target_requested_at = Some t, mind_target_completed_at = None,
      image_fingerprint = (if truthy rt (Some (coalesce (field (body request) ''image_fingerprint'') JNull))
                           then Some (JSON_stringify rt (coalesce (field (body request) ''image_fingerprint'') JNull))
                           else None),
      threshold = Number rt (coalesce (field (body request) ''match_threshold'')
                                 (coalesce (field (body request) ''threshold'') (JNum (lit_0_8 rt)))),
      priority = Number rt (coalesce (field (body request) ''priority'') (JNum (lit_0 rt))),
      p_is_active = 1\<rparr>"
  have fresh: "\<forall>p\<in>set (pairs w). pid p \<noteq> u"
    using assms(6) by (auto simp: pair_by_id_def find_None_iff)
  have "fire_and_forget rt e u (origin request @ ''/public/assets/'' @ img) (origin request)
             (pairs w @ [row]) w (snd (experience_pairs_create rt e u t seg request w))"
  proof (rule dispatch_tail)
    show "list_all (\<lambda>p. pid p = u \<longrightarrow> mind_target_status p = Some ''pending'') (pairs w @ [row])"
      using fresh by (simp add: list_all_iff row_def)
    show "snd (experience_pairs_create rt e u t seg request w) =
        (let rw = dispatchMindarJob rt e u (origin request @ ''/public/assets/'' @ img) (origin request)
             (write_pairs (pairs w @ [row]) w)
         in case fst rw of
              Inl msg \<Rightarrow> snd rw
            | Inr ok \<Rightarrow> if \<not> ok then mark_dispatch_failed u (snd rw) else snd rw)"
      using assms(1-5)
      by (simp add: experience_pairs_create_def row_def Let_def case_prod_beta snd_answer
            cong: sum.case_cong cong del: if_weak_cong)
  qed
  then show ?thesis by (intro exI[of _ row]) (simp add: row_def)
qed

lemma put_columns_pid [simp]: "pid (put_columns rt t b existing p) = pid p"
  by (simp add: put_columns_def Let_def)

lemma put_columns_changed:
  "imageChanged rt b existing \<Longrightarrow>
     mind_target_status (put_columns rt t b existing p) = Some ''pending''
   \<and> mind_target_asset_id (put_columns rt t b existing p) = None
   \<and> mind_target_requested_at (put_columns rt t b existing p) = Some t
   \<and> mind_target_error (put_columns rt t b existing p) = None"
  by (simp add: put_columns_def Let_def)

lemma dispatch_site_put:
  assumes "decodeURIComponent rt seg = Some i" and "pair_by_id w i = Some existing"
    and "text_or_null rt (field (body request) ''image_asset_id'') = Some img"
    and "img \<noteq> []" and "img \<noteq> image_asset_id existing"
  shows "fire_and_forget rt e i (origin request @ ''/public/assets/'' @ img) (origin request)
             (map (\<lambda>p. if pid p = i then put_columns rt t (body request) existing p else p) (pairs w))
             w (snd (pairs_put rt e t seg request w))"
proof (rule dispatch_tail)
  have c: "imageChanged rt (body request) existing"
    using assms(3-5) by (simp add: imageChanged_def)
  show "list_all (\<lambda>p. pid p = i \<longrightarrow> mind_target_status p = Some ''pending'')
          (map (\<lambda>p. if pid p = i then put_columns rt t (body request) existing p else p) (pairs w))"
    by (rule list_all_marked) (simp add: put_columns_changed[OF c])
  show "snd (pairs_put rt e t seg request w) =
        (let rw = dispatchMindarJob rt e i (origin request @ ''/public/assets/'' @ img) (origin request)
             (write_pairs (map (\<lambda>p. if pid p = i then put_columns rt t (body request) existing p else p)
                               (pairs w)) w)
         in case fst rw of
              Inl msg \<Rightarrow> snd rw
            | Inr ok \<Rightarrow> if \<not> ok then mark_dispatch_failed i (snd rw) else snd rw)"
    using assms(1-3) c
    by (simp add: pairs_put_def update_pair_def Let_def case_prod_beta snd_answer
          cong: sum.case_cong cong del: if_weak_cong)
qed

text \<open>
  The three dispatch sites (the dispatch endpoint for a user, the creation of a pair
  under a fresh id, and an update that changes the image). At each the handler first
  writes the pair \<open>pending\<close>, then calls \<^verbatim>\<open>dispatchMindarJob\<close>, which sends the workflow
  request when a token and a repository are configured; when that call returns
  \<^verbatim>\<open>false\<close> the pair is at once written \<open>failed\<close> with the message \<^verbatim>\<open>Dispatch failed\<close>;
  when it returns \<^verbatim>\<open>true\<close>, and also when it throws, the pair stays \<open>pending\<close>, and the
  handler writes nothing more.
\<close>

lemma dispatch_sites:
  "(user = Some email \<and> text_or_empty rt (field (body request) ''pairId'') = i \<and> i \<noteq> [] \<and>
    text_or_empty rt (field (body request) ''image_asset_id'') = img \<and> img \<noteq> [] \<longrightarrow>
      fire_and_forget rt e i (origin request @ ''/public/assets/'' @ img) (origin request)
        (map (\<lambda>p. if pid p = i then p\<lparr>mind_target_status := Some ''pending'', mind_target_error := None,
                                         mind_target_requested_at := Some t\<rparr> else p) (pairs w))
        w (snd (jobs_mindar_dispatch rt e t user request w)))
 \<and> (decodeURIComponent rt seg = Some expId \<and>
    text_or_empty rt (field (body request) ''image_asset_id'') = img \<and> img \<noteq> [] \<and>
    text_or_empty rt (field (body request) ''video_asset_id'') = vid \<and> vid \<noteq> [] \<and>
    pair_by_id w u = None \<longrightarrow>
      (\<exists>row. pid row = u \<and> experience_id row = expId \<and> image_asset_id row = img \<and>
             video_asset_id row = vid \<and>
             fire_and_forget rt e u (origin request @ ''/public/assets/'' @ img) (origin request)
               (pairs w @ [row]) w (snd (experience_pairs_create rt e u t seg request w))))
 \<and> (decodeURIComponent rt seg = Some i \<and> pair_by_id w i = Some existing \<and>
    text_or_null rt (field (body request) ''image_asset_id'') = Some img \<and>
    img \<noteq> [] \<and> img \<noteq> image_asset_id existing \<longrightarrow>
      fire_and_forget rt e i (origin request @ ''/public/assets/'' @ img) (origin request)
        (map (\<lambda>p. if pid p = i then put_columns rt t (body request) existing p else p) (pairs w))
        w (snd (pairs_put rt e t seg request w)))"
  using dispatch_site_endpoint[of user email rt request i img e t w]
        dispatch_site_create[of rt seg expId request img vid w u e t]
        dispatch_site_put[of rt seg i w existing request img e t]
  by blast

lemma dispatch_sites_evaluated:
  "map mind_target_status (pairs (snd (jobs_mindar_dispatch rt0 env0 ''t1'' (Some ''admin@local'')
       (job_request dispatch_body) world0))) = [Some ''pending'']
   \<and> map (\<lambda>x. case x of Wrote_pairs ps \<Rightarrow> map mind_target_status ps | Sent rq \<Rightarrow> [])
        (effects (snd (jobs_mindar_dispatch rt0 env0 ''t1'' (Some ''admin@local'')
           (job_request dispatch_body) world0)))
       = [[Some ''pending''], []]
   \<and> map (\<lambda>p. (mind_target_status p, mind_target_error p))
        (pairs (snd (jobs_mindar_dispatch rt0 env_refused ''t1'' (Some ''admin@local'')
           (job_request dispatch_body) world0))) = [(Some ''failed'', Some ''Dispatch failed'')]
   \<and> map (\<lambda>x. case x of Wrote_pairs ps \<Rightarrow> map mind_target_status ps | Sent rq \<Rightarrow> [])
        (effects (snd (pairs_put rt0 env_refused ''t1'' ''p1'' (job_request dispatch_body) world0)))
       = [[Some ''pending''], [], [Some ''failed'']]
   \<and> map (\<lambda>x. case x of Wrote_pairs ps \<Rightarrow> map mind_target_status ps | Sent rq \<Rightarrow> [])
        (effects (snd (experience_pairs_create rt0 env_unconfigured ''u1'' ''t1'' ''e1''
           (job_request dispatch_body) world0)))
       = [[Some ''pending'', Some ''pending''], [Some ''pending'', Some ''failed'']]"
proof -
  let ?r = "job_request dispatch_body"
  have h: "text_or_empty rt0 (field (body ?r) ''pairId'') = ''p1''"
      "text_or_empty rt0 (field (body ?r) ''image_asset_id'') = ''img2''"
      "text_or_empty rt0 (field (body ?r) ''video_asset_id'') = ''vid2''"
      "text_or_null rt0 (field (body ?r) ''image_asset_id'') = Some ''img2''"
      "decodeURIComponent rt0 ''e1'' = Some ''e1''" "decodeURIComponent rt0 ''p1'' = Some ''p1''"
      "pair_by_id world0 ''u1'' = None" "pair_by_id world0 ''p1'' = Some pair0"
      "image_asset_id pair0 = ''img1''" "origin ?r = ''https://api''"
    by (simp_all add: text_or_empty_def text_or_null_def job_request_def dispatch_body_def trim_def
          is_space_def rt0_def pair_by_id_def world0_def pair0_def)
  have c: "configured env0" "configured env_refused" "\<not> configured env_unconfigured"
      "github rt0 (workflow_request env0 i u a) = Inr True"
      "github rt0 (workflow_request env_refused i u a) = Inr False"
    for i u a
    by (simp_all add: configured_def workflow_request_def env0_def env_refused_def env_unconfigured_def
          str_or_def rt0_def)
  have w: "pairs world0 = [pair0]" "effects world0 = []" "pid pair0 = ''p1''"
      "mind_target_status pair0 = Some ''pending''"
    by (simp_all add: world0_def pair0_def)
  note t = dispatch_sites [where user = "Some ''admin@local''" and email = "''admin@local''"
      and rt = rt0 and request = ?r and i = "''p1''" and img = "''img2''" and t = "''t1''"
      and w = world0 and expId = "''e1''" and vid = "''vid2''" and u = "''u1''" and existing = pair0]
  show ?thesis
    using t [where e = env0 and seg = "''p1''"] t [where e = env_refused and seg = "''p1''"]
          t [where e = env_unconfigured and seg = "''e1''"]
    by (auto simp: h c w fire_and_forget_def dispatch_result_def dispatch_failed_rows_def Let_def
          put_columns_def imageChanged_def)
qed

lemma retry_user: "requireUser rt_down env0 (now_s nd0) retry_request = Some ''admin@local''"
  by (simp add: requireUser_def getBearerToken_def retry_request_def str_or_def to_lower_def upper_case_def
      lower_case_def bearer_rest_matches_def is_space_def line_terminator_def trim_def verifyToken_def
      signing_secret_def env0_def rt_down_def rt0_def nd0_def Let_def)

lemma fetch_retry:
  "fetch rt e nd retry_request w =
     jobs_mindar_dispatch rt e (iso nd) (requireUser rt e (now_s nd) retry_request) retry_request w"
  by (simp add: fetch_def routes_def gate_rejects_def needsAuth_def match_one_def retry_request_def Let_def)

lemma fetch_create:
  "fetch rt env0 nd create_request w =
     experience_pairs_create rt env0 (uuid1 nd) (iso nd) ''e1'' create_request w"
  by (simp add: fetch_def routes_def gate_rejects_def needsAuth_def match_one_def create_request_def
      job_request_def isJobSecretValid_def env0_def str_or_def suffix_to_prefix Let_def)

lemma fetch_change:
  "fetch rt env0 nd change_request w = pairs_put rt env0 (iso nd) ''p1'' change_request w"
  by (simp add: fetch_def routes_def gate_rejects_def needsAuth_def match_one_def change_request_def
      job_request_def isJobSecretValid_def env0_def str_or_def Let_def)

text \<open>
  Claim C6 at the input where it fails. A token and a repository are configured and the
  workflow endpoint cannot be reached, so that the call made by \<^verbatim>\<open>dispatchMindarJob\<close>
  rejects. Nothing catches the error before the \<^verbatim>\<open>catch\<close> of the worker: the statement
  that writes \<open>failed\<close> with \<^verbatim>\<open>Dispatch failed\<close> is not run, the answer is 500, and the pair
  is left \<open>pending\<close> without an error. This is so at the dispatch endpoint (for a signed-in
  user), at the creation of a pair, and at an update that changes the image of a ready
  pair.
\<close>

theorem dispatch_rejected_stays_pending:
  "configured env0
   \<and> github rt_down (workflow_request env0 ''p1'' ''https://api/public/assets/img2'' ''https://api'')
       = Inl ''Network connection lost.''
   \<and> fst (fetch rt_down env0 nd0 retry_request world0) = error_response ''Network connection lost.'' 500
   \<and> map (\<lambda>p. (pid p, mind_target_status p, mind_target_error p))
        (pairs (snd (fetch rt_down env0 nd0 retry_request world0))) = [(''p1'', Some ''pending'', None)]
   \<and> effects (snd (fetch rt_down env0 nd0 retry_request world0))
       = [Wrote_pairs [pair0\<lparr>mind_target_requested_at := Some ''t1''\<rparr>],
          Sent (workflow_request env0 ''p1'' ''https://api/public/assets/img2'' ''https://api'')]
   \<and> fst (fetch rt_down env0 nd0 create_request world0) = error_response ''Network connection lost.'' 500
   \<and> map (\<lambda>p. (pid p, mind_target_status p, mind_target_error p))
        (pairs (snd (fetch rt_down env0 nd0 create_request world0)))
       = [(''p1'', Some ''pending'', None), (''u1'', Some ''pending'', None)]
   \<and> fst (fetch rt_down env0 nd0 change_request world_one_ready)
       = error_response ''Network connection lost.'' 500
   \<and> map (\<lambda>p. (pid p, mind_target_status p, mind_target_error p))
        (pairs (snd (fetch rt_down env0 nd0 change_request world_one_ready)))
       = [(''p1'', Some ''pending'', None)]"
proof -
  have a: "configured env0
   \<and> github rt_down (workflow_request env0 ''p1'' ''https://api/public/assets/img2'' ''https://api'')
       = Inl ''Network connection lost.''
   \<and> fst (fetch rt_down env0 nd0 retry_request world0) = error_response ''Network connection lost.'' 500
   \<and> map (\<lambda>p. (pid p, mind_target_status p, mind_target_error p))
        (pairs (snd (fetch rt_down env0 nd0 retry_request world0))) = [(''p1'', Some ''pending'', None)]
   \<and> effects (snd (fetch rt_down env0 nd0 retry_request world0))
       = [Wrote_pairs [pair0\<lparr>mind_target_requested_at := Some ''t1''\<rparr>],
          Sent (workflow_request env0 ''p1'' ''https://api/public/assets/img2'' ''https://api'')]"
    unfolding fetch_retry retry_user
    by (simp add: jobs_mindar_dispatch_def dispatchMindarJob_def configured_def env0_def str_or_def
        retry_request_def dispatch_body_def text_or_empty_def trim_def is_space_def rt_down_def rt0_def
        update_pair_def write_pairs_def world0_def pair0_def nd0_def Let_def)
  have b: "fst (fetch rt_down env0 nd0 create_request world0) = error_response ''Network connection lost.'' 500
   \<and> map (\<lambda>p. (pid p, mind_target_status p, mind_target_error p))
        (pairs (snd (fetch rt_down env0 nd0 create_request world0)))
       = [(''p1'', Some ''pending'', None), (''u1'', Some ''pending'', None)]
   \<and> fst (fetch rt_down env0 nd0 change_request world_one_ready)
       = error_response ''Network connection lost.'' 500
   \<and> map (\<lambda>p. (pid p, mind_target_status p, mind_target_error p))
        (pairs (snd (fetch rt_down env0 nd0 change_request world_one_ready)))
       = [(''p1'', Some ''pending'', None)]"
    unfolding fetch_create fetch_change
    by (simp add: experience_pairs_create_def pairs_put_def put_columns_def imageChanged_def text_or_null_def
        dispatchMindarJob_def configured_def env0_def str_or_def pair_by_id_def
        create_request_def change_request_def job_request_def dispatch_body_def image_body_def
        text_or_empty_def trim_def is_space_def rt_down_def rt0_def coalesce_def nullish_def
        update_pair_def write_pairs_def world0_def world_one_ready_def pair_ready_def pair0_def nd0_def Let_def)
  show ?thesis using a b by blast
qed

section \<open>Updating a pair\<close>

lemma pairs_put_found:
  assumes "decodeURIComponent rt seg = Some i" and "pair_by_id w i = Some existing"
  shows "pairs (snd (pairs_put rt e t seg request w)) =
           (let ps = map (\<lambda>p. if pid p = i then put_columns rt t (body request) existing p else p) (pairs w)
            in if imageChanged rt (body request) existing \<and>
                  dispatch_result rt e (workflow_request e i
                        (origin request @ ''/public/assets/'' @ the (text_or_null rt (field (body request) ''image_asset_id'')))
                        (origin request)) = Inr False
               then dispatch_failed_rows i ps else ps)"
  using assms
  by (simp add: pairs_put_def update_pair_def write_pairs_def dispatchMindarJob_def mark_dispatch_failed_def
        dispatch_failed_rows_def dispatch_result_def Let_def split: sum.splits)

lemma find_dispatch_failed_rows:
  "find (\<lambda>p. pid p = j) (dispatch_failed_rows i ps) =
     (if j = i then map_option (\<lambda>p. p\<lparr>mind_target_status := Some ''failed'',
                                          mind_target_error := Some ''Dispatch failed''\<rparr>)
                      (find (\<lambda>p. pid p = j) ps)
      else find (\<lambda>p. pid p = j) ps)"
  unfolding dispatch_failed_rows_def by (rule find_map_upd) simp

lemma pairs_put_row:
  assumes "decodeURIComponent rt seg = Some i" and "pair_by_id w i = Some existing"
  shows "pair_by_id (snd (pairs_put rt e t seg request w)) i =
           Some (let q = put_columns rt t (body request) existing existing
                 in if imageChanged rt (body request) existing \<and>
                       dispatch_result rt e (workflow_request e i
                        (origin request @ ''/public/assets/'' @ the (text_or_null rt (field (body request) ''image_asset_id'')))
                        (origin request)) = Inr False
                    then q\<lparr>mind_target_status := Some ''failed'', mind_target_error := Some ''Dispatch failed''\<rparr>
                    else q)"
proof -
  have f: "find (\<lambda>p. pid p = i) (pairs w) = Some existing"
    using assms(2) by (simp add: pair_by_id_def)
  show ?thesis
    unfolding pair_by_id_def pairs_put_found[OF assms]
    by (auto simp: Let_def find_dispatch_failed_rows find_map_upd f)
qed






section \<open>Updates leave what they are not given\<close>

lemma requireAuth_world:
  "requireAuth now request w = (Some user, w0) \<Longrightarrow> w0 = w"
  by (auto simp: requireAuth_def split: option.splits if_splits)

lemma set_is_active_others [simp]:
  "pid (set_is_active b p) = pid p"
  "experience_id (set_is_active b p) = experience_id p"
  "image_asset_id (set_is_active b p) = image_asset_id p"
  "video_asset_id (set_is_active b p) = video_asset_id p"
  "image_fingerprint (set_is_active b p) = image_fingerprint p"
  "mind_target_asset_id (set_is_active b p) = mind_target_asset_id p"
  "mind_target_status (set_is_active b p) = mind_target_status p"
  "mind_target_error (set_is_active b p) = mind_target_error p"
  "mind_target_requested_at (set_is_active b p) = mind_target_requested_at p"
  "mind_target_completed_at (set_is_active b p) = mind_target_completed_at p"
  "threshold (set_is_active b p) = threshold p"
  "priority (set_is_active b p) = priority p"
  by (simp_all add: set_is_active_def split: option.split json.split)

lemma set_threshold_others [simp]:
  "pid (set_threshold b p) = pid p"
  "experience_id (set_threshold b p) = experience_id p"
  "image_asset_id (set_threshold b p) = image_asset_id p"
  "video_asset_id (set_threshold b p) = video_asset_id p"
  "image_fingerprint (set_threshold b p) = image_fingerprint p"
  "mind_target_asset_id (set_threshold b p) = mind_target_asset_id p"
  "mind_target_status (set_threshold b p) = mind_target_status p"
  "mind_target_error (set_threshold b p) = mind_target_error p"
  "mind_target_requested_at (set_threshold b p) = mind_target_requested_at p"
  "mind_target_completed_at (set_threshold b p) = mind_target_completed_at p"
  "p_is_active (set_threshold b p) = p_is_active p"
  "priority (set_threshold b p) = priority p"
  by (simp_all add: set_threshold_def split: option.split json.split)

lemma set_priority_others [simp]:
  "pid (set_priority b p) = pid p"
  "experience_id (set_priority b p) = experience_id p"
  "image_asset_id (set_priority b p) = image_asset_id p"
  "video_asset_id (set_priority b p) = video_asset_id p"
  "image_fingerprint (set_priority b p) = image_fingerprint p"
  "mind_target_asset_id (set_priority b p) = mind_target_asset_id p"
  "mind_target_status (set_priority b p) = mind_target_status p"
  "mind_target_error (set_priority b p) = mind_target_error p"
  "mind_target_requested_at (set_priority b p) = mind_target_requested_at p"
  "mind_target_completed_at (set_priority b p) = mind_target_completed_at p"
  "p_is_active (set_priority b p) = p_is_active p"
  "threshold (set_priority b p) = threshold p"
  by (simp_all add: set_priority_def split: option.split json.split)

lemma setters_unsupplied:
  "field b ''is_active'' = None \<Longrightarrow> set_is_active b p = p"
  "field b ''threshold'' = None \<Longrightarrow> set_threshold b p = p"
  "field b ''priority'' = None \<Longrightarrow> set_priority b p = p"
  by (simp_all add: set_is_active_def set_threshold_def set_priority_def)

lemma typed_updates_frame:
  "pid (typed_updates b p) = pid p"
  "experience_id (typed_updates b p) = experience_id p"
  "image_asset_id (typed_updates b p) = image_asset_id p"
  "video_asset_id (typed_updates b p) = video_asset_id p"
  "image_fingerprint (typed_updates b p) = image_fingerprint p"
  "mind_target_asset_id (typed_updates b p) = mind_target_asset_id p"
  "mind_target_status (typed_updates b p) = mind_target_status p"
  "mind_target_error (typed_updates b p) = mind_target_error p"
  "mind_target_requested_at (typed_updates b p) = mind_target_requested_at p"
  "mind_target_completed_at (typed_updates b p) = mind_target_completed_at p"
  by (simp_all add: typed_updates_def)

lemma typed_updates_unsupplied:
  "field b ''is_active'' = None \<Longrightarrow> p_is_active (typed_updates b p) = p_is_active p"
  "field b ''threshold'' = None \<Longrightarrow> threshold (typed_updates b p) = threshold p"
  "field b ''priority'' = None \<Longrightarrow> priority (typed_updates b p) = priority p"
  by (simp_all add: typed_updates_def setters_unsupplied)

lemma session_put_row:
  assumes "requireAuth now request w = (Some user, w0)"
    and "split_on (CHR ''/'') (path request) = x # y # i # rest" and "i \<noteq> []"
    and "find (\<lambda>p. pid p = i) (s_pairs w) = Some existing"
    and "b = parseJsonBody request"
  shows "find (\<lambda>p. pid p = i) (s_pairs (snd (session_pairs_put rt now request w))) =
           Some (if \<not> truthy rt (Some b) \<or> no_updates b then existing else typed_updates b existing)"
proof -
  have w0: "w0 = w" using assms(1) by (rule requireAuth_world)
  have f: "find (\<lambda>p. pid p = i) (map (\<lambda>p. if pid p = i then typed_updates b p else p) (s_pairs w))
             = Some (typed_updates b existing)"
    using find_map_upd[of "typed_updates b" i i "s_pairs w"] assms(4)
    by (simp add: typed_updates_frame(1))
  show ?thesis
    using assms(1-4) f
    by (simp add: session_pairs_put_def w0 assms(5)[symmetric] Let_def)
qed


lemma staging_update_keeps:
  assumes "decodeURIComponent rt seg = Some i" and "pair_by_id w i = Some existing"
  shows "\<exists>p'. pair_by_id (snd (pairs_put rt e t seg request w)) i = Some p'
              \<and> kept_by_staging_update rt (body request) existing p'"
  unfolding pairs_put_row[OF assms] kept_by_staging_update_def
  by (simp add: Let_def put_columns_def imageChanged_def text_or_null_def nullish_def)

lemma session_update_keeps:
  assumes "requireAuth now request w = (Some user, w0)"
    and "split_on (CHR ''/'') (path request) = x # y # i # rest" and "i \<noteq> []"
    and "find (\<lambda>p. pid p = i) (s_pairs w) = Some existing"
  shows "\<exists>p'. find (\<lambda>p. pid p = i) (s_pairs (snd (session_pairs_put rt now request w))) = Some p'
              \<and> kept_by_session_update (parseJsonBody request) existing p'"
  unfolding session_put_row[OF assms refl] kept_by_session_update_def
  by (simp add: typed_updates_frame typed_updates_unsupplied)

text \<open>
  Claim C8, as the code has it. In the staging worker an update of an existing pair keeps
  every column whose field is absent from the body, keeps the completion time, and keeps
  the generated asset, the status and the request time unless the image changes (the
  error column is left aside here). In the session variant an update of an existing pair by a signed-in user writes nothing but the
  flag, the threshold and the priority, each only when the body has it.
\<close>

theorem update_keeps_unsupplied:
  "(decodeURIComponent rt seg = Some i \<and> pair_by_id w i = Some existing \<longrightarrow>
      (\<exists>p'. pair_by_id (snd (pairs_put rt e t seg request w)) i = Some p'
            \<and> kept_by_staging_update rt (body request) existing p'))
 \<and> (requireAuth now srequest sw = (Some user, sw0) \<and>
    split_on (CHR ''/'') (path srequest) = x # y # j # rest \<and> j \<noteq> [] \<and>
    find (\<lambda>p. pid p = j) (s_pairs sw) = Some sexisting \<longrightarrow>
      (\<exists>p'. find (\<lambda>p. pid p = j) (s_pairs (snd (session_pairs_put rt now srequest sw))) = Some p'
            \<and> kept_by_session_update (parseJsonBody srequest) sexisting p'))"
  using staging_update_keeps[of rt seg i w existing e t request]
        session_update_keeps[of now srequest sw user sw0 x y j rest sexisting rt]
  by blast

theorem update_keeps_unsupplied_witness:
  "(\<exists>p'. pair_by_id (snd (pairs_put rt0 env0 ''t1'' ''p1'' (job_request priority_body) world_failed)) ''p1''
           = Some p'
        \<and> experience_id p' = ''e1'' \<and> image_asset_id p' = ''img1'' \<and> video_asset_id p' = ''vid1''
        \<and> image_fingerprint p' = None \<and> threshold p' = 8 \<and> p_is_active p' = 1
        \<and> mind_target_completed_at p' = Some ''t1'' \<and> mind_target_asset_id p' = None
        \<and> mind_target_status p' = Some ''failed'' \<and> mind_target_requested_at p' = Some ''t0'')
   \<and> (\<exists>p'. find (\<lambda>p. pid p = ''p1'')
            (s_pairs (snd (session_pairs_put rt0 1000 (session_request ''PUT'' ''/pairs/p1'' priority_body)
                             sworld0))) = Some p'
        \<and> experience_id p' = ''e1'' \<and> image_asset_id p' = ''img1'' \<and> video_asset_id p' = ''vid1''
        \<and> image_fingerprint p' = None \<and> threshold p' = 8 \<and> p_is_active p' = 1
        \<and> mind_target_completed_at p' = Some ''t1'' \<and> mind_target_asset_id p' = None
        \<and> mind_target_status p' = Some ''failed'' \<and> mind_target_requested_at p' = Some ''t0''
        \<and> mind_target_error p' = Some ''timeout'')"
proof -
  have h: "decodeURIComponent rt0 ''p1'' = Some ''p1''" "pair_by_id world_failed ''p1'' = Some pair_failed"
    by (simp_all add: rt0_def pair_by_id_def world_failed_def world0_def pair_failed_def pair0_def)
  have a: "requireAuth 1000 (session_request ''PUT'' ''/pairs/p1'' priority_body) sworld0
             = (Some user0, sworld0)"
    by (simp add: requireAuth_def parseAuthToken_def session_request_def sworld0_def user0_def
          trim_def is_space_def)
  have s: "split_on (CHR ''/'') (path (session_request ''PUT'' ''/pairs/p1'' priority_body))
             = [] # ''pairs'' # ''p1'' # []" "''p1'' \<noteq> []"
      "find (\<lambda>p. pid p = ''p1'') (s_pairs sworld0) = Some pair_failed"
    by (simp_all add: session_request_def sworld0_def pair_failed_def pair0_def)
  have b: "field (body (job_request priority_body)) k = (if k = ''priority'' then Some (JNum 7) else None)"
      "field (parseJsonBody (session_request ''PUT'' ''/pairs/p1'' priority_body)) k
         = (if k = ''priority'' then Some (JNum 7) else None)" for k
    by (simp_all add: job_request_def session_request_def priority_body_def parseJsonBody_def)
  have c: "\<not> imageChanged rt0 (body (job_request priority_body)) pair_failed"
    by (simp add: imageChanged_def text_or_null_def b)
  show ?thesis
    using update_keeps_unsupplied [where rt = rt0 and seg = "''p1''" and i = "''p1''" and w = world_failed
        and existing = pair_failed and e = env0 and t = "''t1''" and request = "job_request priority_body"
        and now = 1000 and srequest = "session_request ''PUT'' ''/pairs/p1'' priority_body"
        and sw = sworld0 and user = user0 and ?sw0.0 = sworld0 and x = "[]" and y = "''pairs''"
        and j = "''p1''" and rest = "[]" and sexisting = pair_failed]
    apply (simp add: h a s kept_by_staging_update_def kept_by_session_update_def b c)
    apply (simp add: pair_failed_def pair0_def)
    apply blast
    done
qed

text \<open>
  Claim C8 as it is written lets every field that the body leaves out keep its value, the
  \<^verbatim>\<open>mind_target\<close> fields among them. A body with a new image id alone takes a ready pair
  of the staging worker back to \<open>pending\<close> and unbinds its generated asset.
\<close>

theorem update_keeps_unsupplied_counterexample:
  "pair_by_id world_one_ready ''p1'' = Some pair_ready
   \<and> mind_target_status pair_ready = Some ''ready''
   \<and> mind_target_asset_id pair_ready = Some ''mind1''
   \<and> field (body (job_request (image_body ''img2''))) ''mind_target_status'' = None
   \<and> field (body (job_request (image_body ''img2''))) ''mind_target_asset_id'' = None
   \<and> pair_by_id (snd (pairs_put rt0 env0 ''t1'' ''p1'' (job_request (image_body ''img2'')) world_one_ready))
        ''p1''
       = Some (pair_ready\<lparr>image_asset_id := ''img2'', mind_target_asset_id := None,
                          mind_target_status := Some ''pending'',
                          mind_target_requested_at := Some ''t1''\<rparr>)"
  by (simp add: pairs_put_def put_columns_def imageChanged_def text_or_null_def job_request_def image_body_def
        trim_def is_space_def rt0_def nullish_def pair_by_id_def update_pair_def write_pairs_def
        dispatchMindarJob_def configured_def workflow_request_def env0_def str_or_def
        world_one_ready_def world0_def pair_ready_def pair0_def Let_def)

text \<open>The \<^verbatim>\<open>UPDATE\<close> statement of the staging worker writes \<^verbatim>\<open>NULL\<close> to the error column
  whatever the body is: a body with the priority alone leaves a failed pair \<open>failed\<close>
  and without its error.\<close>

lemma staging_update_error_column:
  "pair_by_id world_failed ''p1'' = Some pair_failed
   \<and> mind_target_error pair_failed = Some ''timeout''
   \<and> pair_by_id (snd (pairs_put rt0 env0 ''t1'' ''p1'' (job_request priority_body) world_failed)) ''p1''
       = Some (pair_failed\<lparr>mind_target_error := None, priority := 7\<rparr>)"
  by (simp add: pairs_put_def put_columns_def imageChanged_def text_or_null_def job_request_def priority_body_def
        rt0_def nullish_def pair_by_id_def update_pair_def write_pairs_def
        world_failed_def world0_def pair_failed_def pair0_def Let_def)

section \<open>Login\<close>








section \<open>The status of a pair over the requests\<close>



lemma status_step_map:
  assumes "list_all valid_status ps"
    and "\<And>p. p \<in> set ps \<Longrightarrow> valid_status (h p) \<and> pid (h p) = pid p \<and>
            (carries (h p) \<or> (\<exists>q\<in>set ps. pid q = pid p \<and> mind_target_status q = mind_target_status (h p)))"
  shows "status_step ps (map h ps)"
  unfolding status_step_def list_all_iff list_ex_iff
proof (intro conjI ballI)
  fix p' assume "p' \<in> set (map h ps)"
  then obtain p where p: "p \<in> set ps" "p' = h p" by auto
  show "valid_status p'" using p assms(2)[OF p(1)] by simp
  show "carries p' \<or> (\<exists>q\<in>set ps. pid q = pid p' \<and> mind_target_status q = mind_target_status p')"
    using p assms(2)[OF p(1)] by auto
qed


lemma status_step_update:
  assumes "list_all valid_status ps"
    and "\<And>p. p \<in> set ps \<Longrightarrow> pid p = i \<Longrightarrow> valid_status (f p) \<and> pid (f p) = i \<and>
            (carries (f p) \<or> (\<exists>q\<in>set ps. pid q = i \<and> mind_target_status q = mind_target_status (f p)))"
  shows "status_step ps (map (\<lambda>p. if pid p = i then f p else p) ps)"
proof (rule status_step_map[OF assms(1)])
  fix p assume p: "p \<in> set ps"
  show "valid_status (if pid p = i then f p else p) \<and> pid (if pid p = i then f p else p) = pid p \<and>
        (carries (if pid p = i then f p else p) \<or>
         (\<exists>q\<in>set ps. pid q = pid p \<and> mind_target_status q = mind_target_status (if pid p = i then f p else p)))"
  proof (cases "pid p = i")
    case True
    then show ?thesis using assms(2)[OF p True] by auto
  next
    case False
    then show ?thesis using p assms(1) by (auto simp: list_all_iff)
  qed
qed

lemma dispatch_failed_rows_update:
  assumes "\<And>p. pid (f p) = pid p"
  shows "dispatch_failed_rows i (map (\<lambda>p. if pid p = i then f p else p) ps) =
         map (\<lambda>p. if pid p = i
                   then (f p)\<lparr>mind_target_status := Some ''failed'', mind_target_error := Some ''Dispatch failed''\<rparr>
                   else p) ps"
  by (simp add: dispatch_failed_rows_def assms)

lemma status_step_dispatch_failed:
  assumes "list_all valid_status ps"
  shows "status_step ps (dispatch_failed_rows i ps)"
  unfolding dispatch_failed_rows_def
  by (rule status_step_update[OF assms]) (simp add: valid_status_def carries_def)
















lemma pending_step_weaken: "pending_step False ps ps' \<Longrightarrow> pending_step a ps ps'"
  by (simp add: pending_step_def list_all_iff)




lemma pending_step_then_failed:
  assumes "pending_step a ps qs"
  shows "pending_step a ps (dispatch_failed_rows i qs)"
  unfolding pending_step_def list_all_iff list_ex_iff dispatch_failed_rows_def
proof (intro ballI impI)
  fix p' assume a: "p' \<in> set (map (\<lambda>p. if pid p = i then p\<lparr>mind_target_status := Some ''failed'',
                                    mind_target_error := Some ''Dispatch failed''\<rparr> else p) qs)"
    "mind_target_status p' = Some ''pending''"
  then obtain q where q: "q \<in> set qs"
    "p' = (if pid q = i then q\<lparr>mind_target_status := Some ''failed'',
                               mind_target_error := Some ''Dispatch failed''\<rparr> else q)" by auto
  have "p' = q" using q(2) a(2) by (cases "pid q = i") auto
  then show "a \<or> (\<exists>p\<in>set ps. pid p = pid p' \<and> mind_target_status p = Some ''pending'')"
    using assms q(1) a(2) by (auto simp: pending_step_def list_all_iff list_ex_iff)
qed





























end
